theory Spec2Isabelle
  imports Main "HOL-Library.Word" "HOL-Library.List_Lexorder"
begin

section \<open>Strings\<close>

text \<open>
  The server is a Node.js program: its strings are sequences of UTF-16 code units, and
  \<open>length\<close>, \<open>replace\<close> and the regular expression of \<open>validateEmail\<close> (which has no
  \<open>u\<close> flag) all work on code units. \<open>js\<close> embeds an ASCII literal.
\<close>

type_synonym code_unit = "16 word"
type_synonym js_string = "code_unit list"

definition js :: "string \<Rightarrow> js_string" where
  "js s = map (\<lambda>c. of_char c) s"


text \<open>
  A field that may be absent is an \<open>option\<close>, \<open>None\<close> for \<open>undefined\<close>; \<open>!x\<close> on
  such a field holds for \<open>None\<close> and for the empty string, and the routes below write
  the two cases out.
\<close>

text \<open>
  \<open>s.replace(pat, rep)\<close> with a string pattern: the first occurrence of \<open>pat\<close>,
  wherever it starts, is replaced; a string without an occurrence is returned as it is.
\<close>

fun replace_first :: "js_string \<Rightarrow> js_string \<Rightarrow> js_string \<Rightarrow> js_string" where
  "replace_first pat rep [] = (if pat = [] then rep else [])"
| "replace_first pat rep (c # cs) =
     (if take (length pat) (c # cs) = pat then rep @ drop (length pat) (c # cs)
      else c # replace_first pat rep cs)"

section \<open>The regular expression of validateEmail\<close>

text \<open>
  Both source files define
  \<^verbatim>\<open>const validateEmail = (email) => /^[^\s@]+@[^\s@]+\.[^\s@]+$/.test(email);\<close>
  The pattern is anchored at both ends and has no captures, look-around or
  back-references, so \<open>test\<close> decides whether the whole string belongs to the language
  of the pattern. \<open>pattern\<close> is the syntax of the constructs the literal uses (a
  character, a negated class, \<open>+\<close>, sequence) together with the three forms that the
  derivative of a pattern needs (\<open>Fail\<close>, \<open>Empty\<close>, \<open>Either\<close>); \<open>full_match\<close> decides
  membership by taking derivatives, one code unit at a time.
\<close>

datatype class_atom = WhiteSpaceEsc | ClassChar code_unit

datatype pattern =
    Fail
  | Empty
  | Char code_unit
  | NotOneOf "class_atom list"
  | OneOrMore pattern
  | Then pattern pattern
  | Either pattern pattern

text \<open>The code units that \<open>\s\<close> matches: ECMAScript WhiteSpace and LineTerminator.\<close>

definition isWhiteSpace :: "code_unit \<Rightarrow> bool" where
  "isWhiteSpace c \<longleftrightarrow>
     c \<in> {0x0009, 0x000A, 0x000B, 0x000C, 0x000D, 0x0020, 0x00A0, 0x1680,
          0x2028, 0x2029, 0x202F, 0x205F, 0x3000, 0xFEFF}
     \<or> (0x2000 \<le> c \<and> c \<le> 0x200A)"

fun atom_matches :: "code_unit \<Rightarrow> class_atom \<Rightarrow> bool" where
  "atom_matches c WhiteSpaceEsc = isWhiteSpace c"
| "atom_matches c (ClassChar d) = (c = d)"

fun nullable :: "pattern \<Rightarrow> bool" where
  "nullable Fail = False"
| "nullable Empty = True"
| "nullable (Char d) = False"
| "nullable (NotOneOf as) = False"
| "nullable (OneOrMore p) = nullable p"
| "nullable (Then p q) = (nullable p \<and> nullable q)"
| "nullable (Either p q) = (nullable p \<or> nullable q)"

fun deriv :: "code_unit \<Rightarrow> pattern \<Rightarrow> pattern" where
  "deriv c Fail = Fail"
| "deriv c Empty = Fail"
| "deriv c (Char d) = (if c = d then Empty else Fail)"
| "deriv c (NotOneOf as) = (if list_ex (atom_matches c) as then Fail else Empty)"
| "deriv c (OneOrMore p) = Then (deriv c p) (Either Empty (OneOrMore p))"
| "deriv c (Then p q) =
     (if nullable p then Either (Then (deriv c p) q) (deriv c q) else Then (deriv c p) q)"
| "deriv c (Either p q) = Either (deriv c p) (deriv c q)"

fun full_match :: "pattern \<Rightarrow> js_string \<Rightarrow> bool" where
  "full_match p [] = nullable p"
| "full_match p (c # cs) = full_match (deriv c p) cs"

text \<open>\<open>0x40\<close> is \<open>@\<close> and \<open>0x2E\<close> is the full stop.\<close>

definition email_pattern :: pattern where
  "email_pattern =
     Then (OneOrMore (NotOneOf [WhiteSpaceEsc, ClassChar 0x40]))
       (Then (Char 0x40)
         (Then (OneOrMore (NotOneOf [WhiteSpaceEsc, ClassChar 0x40]))
           (Then (Char 0x2E)
             (OneOrMore (NotOneOf [WhiteSpaceEsc, ClassChar 0x40])))))"

definition validateEmail :: "js_string \<Rightarrow> bool" where
  "validateEmail email = full_match email_pattern email"



text \<open>The language of a pattern, the reference for \<open>full_match\<close>.\<close>

fun lang :: "pattern \<Rightarrow> js_string set" where
  "lang Fail = {}"
| "lang Empty = {[]}"
| "lang (Char d) = {[d]}"
| "lang (NotOneOf as) = {[c] | c. \<not> list_ex (atom_matches c) as}"
| "lang (OneOrMore p) = {concat ws | ws. ws \<noteq> [] \<and> set ws \<subseteq> lang p}"
| "lang (Then p q) = {u @ v | u v. u \<in> lang p \<and> v \<in> lang q}"
| "lang (Either p q) = lang p \<union> lang q"

text \<open>
  What the pattern accepts, in words: the text before the first \<open>@\<close>, the text after it,
  and the shape both must have.
\<close>

definition email_char :: "code_unit \<Rightarrow> bool" where
  "email_char c \<longleftrightarrow> \<not> isWhiteSpace c \<and> c \<noteq> 0x40"

definition local_part :: "js_string \<Rightarrow> js_string" where
  "local_part e = takeWhile (\<lambda>c. c \<noteq> 0x40) e"

definition domain_part :: "js_string \<Rightarrow> js_string" where
  "domain_part e = tl (dropWhile (\<lambda>c. c \<noteq> 0x40) e)"

definition email_shape :: "js_string \<Rightarrow> bool" where
  "email_shape e \<longleftrightarrow>
     count_list e 0x40 = 1 \<and> \<not> list_ex isWhiteSpace e \<and> local_part e \<noteq> [] \<and>
     0x2E \<in> set (butlast (tl (domain_part e)))"

text \<open>
  The contract as the specification words it: exactly one \<open>@\<close>, at least one
  non-whitespace character before it and after it, and at least one full stop in the
  segment after it.
\<close>

definition spec_email_contract :: "js_string \<Rightarrow> bool" where
  "spec_email_contract e \<longleftrightarrow>
     count_list e 0x40 = 1 \<and>
     list_ex (\<lambda>c. \<not> isWhiteSpace c) (local_part e) \<and>
     list_ex (\<lambda>c. \<not> isWhiteSpace c) (domain_part e) \<and>
     0x2E \<in> set (domain_part e)"

section \<open>Data model\<close>

text \<open>
  The three tables the routes read and write, with the columns the source names.
  Establishment and jammer ids are generated by the store; a user id is the text that
  the identity provider issues. The routes compare ids with \<open>===\<close> and \<open>.eq\<close>, so
  only equality of ids matters here.
\<close>

record users_row =
  u_id :: js_string
  u_email :: js_string
  u_user_name :: js_string
  u_is_admin :: bool

record estabelecimento_row =
  e_id :: nat
  e_user_id :: js_string
  e_nome :: js_string
  e_cep :: js_string

record jammers_row =
  j_id :: nat
  j_id_estabelecimento :: nat
  j_estado_jammer :: bool

record store =
  users :: "users_row list"
  estabelecimento :: "estabelecimento_row list"
  jammers :: "jammers_row list"
  estabelecimento_seq :: nat
  jammers_seq :: nat

text \<open>The principal that the identity provider resolves a token to.\<close>

record auth_user =
  au_id :: js_string
  au_email :: js_string

text \<open>
  A password field of a request body. JSON can put a number, a boolean, \<open>null\<close>, an
  array or an object where a string is expected, and the routes test a password only
  with \<open>!v\<close> and \<open>v.length < 6\<close>. A value that is not a string is kept as the answers
  to these two tests, \<open>NotStr\<close> (is it truthy) (is \<open>v.length < 6\<close>): the number 12345
  is \<open>NotStr True False\<close>, since a number has no \<open>length\<close> and \<open>undefined < 6\<close> is
  false; the array \<open>[1, 2]\<close> is \<open>NotStr True True\<close>; \<open>null\<close>, \<open>false\<close> and \<open>0\<close> are not
  truthy. For a string, \<open>length\<close> counts UTF-16 code units.
\<close>

datatype js_value = Str js_string | NotStr bool bool

fun truthy :: "js_value \<Rightarrow> bool" where
  "truthy (Str s) = (s \<noteq> [])"
| "truthy (NotStr t l) = t"

fun length_lt_6 :: "js_value \<Rightarrow> bool" where
  "length_lt_6 (Str s) = (length s < 6)"
| "length_lt_6 (NotStr t l) = l"

record account =
  acc_id :: js_string
  acc_email :: js_string
  acc_password :: js_value

text \<open>
  The identity provider, reduced to what the routes use of it: the accounts, the tokens
  it accepts (an association list from token to principal), the session held by the
  shared client, the ids it will issue next, and two logs that record the calls to
  \<open>getUser\<close> and to \<open>resetPasswordForEmail\<close>.
\<close>

record identity_provider =
  accounts :: "account list"
  sessions :: "(js_string \<times> auth_user) list"
  client_session :: "auth_user option"
  id_supply :: "js_string list"
  getUser_calls :: "js_string list"
  resetPassword_calls :: "js_string list"

text \<open>
  The writing calls that the routes send to the store, in the order they are sent. A
  call is recorded whether or not the store accepts it.
\<close>

datatype store_call =
    InsertUsers js_string
  | InsertEstabelecimento js_string
  | InsertJammers nat
  | UpdateJammers nat bool
  | DeleteJammersOf nat
  | DeleteEstabelecimento nat
  | DeleteJammers nat

record world =
  db :: store
  idp :: identity_provider
  store_calls :: "store_call list"

text \<open>The world after the writing calls \<open>calls\<close> have left the store \<open>s\<close>.\<close>

definition stored :: "store_call list \<Rightarrow> store \<Rightarrow> world \<Rightarrow> world" where
  "stored calls s w = w\<lparr>db := s, store_calls := store_calls w @ calls\<rparr>"

section \<open>The collaborators\<close>

subsection \<open>Store queries\<close>

text \<open>
  \<open>PGRST116\<close> is the error of \<open>.single()\<close> when the result does not hold exactly one
  row, \<open>UniqueViolation\<close> and \<open>ForeignKeyViolation\<close> the errors of an insert that breaks
  a key. Calls that fail for reasons outside the data (the network) are not modelled.
\<close>

datatype store_error = PGRST116 | UniqueViolation | ForeignKeyViolation

definition single :: "'r list \<Rightarrow> store_error + 'r" where
  "single rows = (case rows of [r] \<Rightarrow> Inr r | _ \<Rightarrow> Inl PGRST116)"

definition maybeSingle :: "'r list \<Rightarrow> store_error + 'r option" where
  "maybeSingle rows =
     (case rows of [] \<Rightarrow> Inr None | [r] \<Rightarrow> Inr (Some r) | _ \<Rightarrow> Inl PGRST116)"

definition insert_users :: "users_row \<Rightarrow> store \<Rightarrow> store_error option \<times> store" where
  "insert_users r s =
     (if list_ex (\<lambda>x. u_id x = u_id r \<or> u_email x = u_email r) (users s)
      then (Some UniqueViolation, s)
      else (None, s\<lparr>users := users s @ [r]\<rparr>))"

definition insert_estabelecimento ::
  "js_string \<Rightarrow> js_string \<Rightarrow> js_string \<Rightarrow> store \<Rightarrow> (store_error + estabelecimento_row) \<times> store" where
  "insert_estabelecimento user_id nome cep s =
     (let r = \<lparr>e_id = estabelecimento_seq s, e_user_id = user_id, e_nome = nome, e_cep = cep\<rparr>;
          s' = s\<lparr>estabelecimento_seq := Suc (estabelecimento_seq s)\<rparr>
      in if list_ex (\<lambda>x. e_id x = e_id r) (estabelecimento s) then (Inl UniqueViolation, s')
         else if \<not> list_ex (\<lambda>u. u_id u = user_id) (users s) then (Inl ForeignKeyViolation, s')
         else (Inr r, s'\<lparr>estabelecimento := estabelecimento s @ [r]\<rparr>))"

definition insert_jammers :: "nat \<Rightarrow> bool \<Rightarrow> store \<Rightarrow> (store_error + jammers_row) \<times> store" where
  "insert_jammers id_estabelecimento estado s =
     (let r = \<lparr>j_id = jammers_seq s, j_id_estabelecimento = id_estabelecimento,
               j_estado_jammer = estado\<rparr>;
          s' = s\<lparr>jammers_seq := Suc (jammers_seq s)\<rparr>
      in if list_ex (\<lambda>x. j_id x = j_id r) (jammers s) then (Inl UniqueViolation, s')
         else if \<not> list_ex (\<lambda>e. e_id e = id_estabelecimento) (estabelecimento s)
           then (Inl ForeignKeyViolation, s')
         else (Inr r, s'\<lparr>jammers := jammers s @ [r]\<rparr>))"

text \<open>
  \<open>.update({ estado_jammer }).eq('id', jammerId).select().single()\<close>: the matching rows
  are rewritten and returned.
\<close>

definition set_estado :: "nat \<Rightarrow> bool \<Rightarrow> jammers_row list \<Rightarrow> jammers_row list" where
  "set_estado jammerId estado rows =
     map (\<lambda>j. if j_id j = jammerId then j\<lparr>j_estado_jammer := estado\<rparr> else j) rows"

definition update_estado_jammer :: "nat \<Rightarrow> bool \<Rightarrow> store \<Rightarrow> (store_error + jammers_row) \<times> store" where
  "update_estado_jammer jammerId estado s =
     (let s' = s\<lparr>jammers := set_estado jammerId estado (jammers s)\<rparr>
      in (single (filter (\<lambda>j. j_id j = jammerId) (jammers s')), s'))"

text \<open>\<open>.delete().eq(column, value)\<close>: the matching rows leave the table and are returned.\<close>

definition delete_jammers_of :: "nat \<Rightarrow> store \<Rightarrow> store" where
  "delete_jammers_of estabelecimentoId s =
     s\<lparr>jammers := filter (\<lambda>j. j_id_estabelecimento j \<noteq> estabelecimentoId) (jammers s)\<rparr>"

definition delete_estabelecimento :: "nat \<Rightarrow> store \<Rightarrow> (store_error + estabelecimento_row) \<times> store" where
  "delete_estabelecimento i s =
     (single (filter (\<lambda>e. e_id e = i) (estabelecimento s)),
      s\<lparr>estabelecimento := filter (\<lambda>e. e_id e \<noteq> i) (estabelecimento s)\<rparr>)"

definition delete_jammer :: "nat \<Rightarrow> store \<Rightarrow> (store_error + jammers_row) \<times> store" where
  "delete_jammer i s =
     (single (filter (\<lambda>j. j_id j = i) (jammers s)),
      s\<lparr>jammers := filter (\<lambda>j. j_id j \<noteq> i) (jammers s)\<rparr>)"

text \<open>The embedded selects: the parent row a foreign key points to, if there is one.\<close>

definition embed_users :: "store \<Rightarrow> estabelecimento_row \<Rightarrow> users_row option" where
  "embed_users s e = find (\<lambda>u. u_id u = e_user_id e) (users s)"

definition embed_estabelecimento :: "store \<Rightarrow> jammers_row \<Rightarrow> estabelecimento_row option" where
  "embed_estabelecimento s j = find (\<lambda>e. e_id e = j_id_estabelecimento j) (estabelecimento s)"

subsection \<open>Identity provider calls\<close>

datatype auth_error = InvalidToken | UserAlreadyRegistered | NoIdAvailable | SessionMissing

text \<open>\<open>supabase.auth.getUser(token)\<close>: every call is logged.\<close>

definition getUser :: "js_string \<Rightarrow> world \<Rightarrow> (auth_error + auth_user) \<times> world" where
  "getUser token w =
     ((case map_of (sessions (idp w)) token of None \<Rightarrow> Inl InvalidToken | Some u \<Rightarrow> Inr u),
      w\<lparr>idp := (idp w)\<lparr>getUser_calls := getUser_calls (idp w) @ [token]\<rparr>\<rparr>)"

text \<open>
  \<open>supabase.auth.signUp({ email, password })\<close>: a new account under the next id of the
  supply, unless the e-mail already has one.
\<close>

definition signUp :: "js_string \<Rightarrow> js_value \<Rightarrow> world \<Rightarrow> (auth_error + auth_user option) \<times> world" where
  "signUp email password w =
     (if list_ex (\<lambda>a. acc_email a = email) (accounts (idp w)) then (Inl UserAlreadyRegistered, w)
      else case id_supply (idp w) of
        [] \<Rightarrow> (Inl NoIdAvailable, w)
      | i # rest \<Rightarrow>
          (Inr (Some \<lparr>au_id = i, au_email = email\<rparr>),
           w\<lparr>idp := (idp w)\<lparr>accounts := accounts (idp w) @
                                  [\<lparr>acc_id = i, acc_email = email, acc_password = password\<rparr>],
                              id_supply := rest\<rparr>\<rparr>))"

definition resetPasswordForEmail :: "js_string \<Rightarrow> world \<Rightarrow> world" where
  "resetPasswordForEmail email w =
     w\<lparr>idp := (idp w)\<lparr>resetPassword_calls := resetPassword_calls (idp w) @ [email]\<rparr>\<rparr>"

text \<open>
  \<open>supabase.auth.setSession({ access_token, refresh_token })\<close> installs a session in the
  shared client when it is given both tokens and the provider accepts the access token;
  a call without a refresh token is refused and leaves the client as it was (the route
  does not look at the result). \<open>updateUser({ password })\<close> replaces the password of
  the account whose session the shared client holds, and fails when it holds none.
\<close>

definition setSession :: "js_string \<Rightarrow> js_string option \<Rightarrow> world \<Rightarrow> world" where
  "setSession access_token refresh_token w =
     (case refresh_token of
        None \<Rightarrow> w
      | Some r \<Rightarrow>
          (case map_of (sessions (idp w)) access_token of
             None \<Rightarrow> w
           | Some u \<Rightarrow> w\<lparr>idp := (idp w)\<lparr>client_session := Some u\<rparr>\<rparr>))"

definition updateUser :: "js_value \<Rightarrow> world \<Rightarrow> auth_error option \<times> world" where
  "updateUser password w =
     (case client_session (idp w) of
        None \<Rightarrow> (Some SessionMissing, w)
      | Some u \<Rightarrow>
          (None,
           w\<lparr>idp := (idp w)\<lparr>accounts :=
               map (\<lambda>a. if acc_id a = au_id u then a\<lparr>acc_password := password\<rparr> else a)
                   (accounts (idp w))\<rparr>\<rparr>))"

section \<open>Requests and responses\<close>

text \<open>
  A request as the routes read it: the \<open>Authorization\<close> header, the route parameters,
  the fields of the JSON body (\<open>None\<close> is \<open>undefined\<close>), and \<open>req.user\<close>, which only the
  middleware of the second source file sets. The two password fields hold any JSON
  value; the e-mail, the access token and the names are taken to be strings.
\<close>

record request =
  authorization :: "js_string option"
  param_userId :: js_string
  param_estabelecimentoId :: nat
  param_jammerId :: nat
  param_id :: nat
  body_email :: "js_string option"
  body_password :: "js_value option"
  body_access_token :: "js_string option"
  body_new_password :: "js_value option"
  body_estado_jammer :: "bool option"
  body_user_id :: "js_string option"
  body_nome :: "js_string option"
  body_cep :: "js_string option"
  body_id_estabelecimento :: "nat option"
  user :: "auth_user option"

definition blank_request :: request where
  "blank_request =
     \<lparr>authorization = None, param_userId = [], param_estabelecimentoId = 0, param_jammerId = 0,
      param_id = 0, body_email = None, body_password = None, body_access_token = None,
      body_new_password = None, body_estado_jammer = None, body_user_id = None,
      body_nome = None, body_cep = None, body_id_estabelecimento = None, user = None\<rparr>"

text \<open>
  The \<open>error\<close> field of a response is either a text of the source (written here without
  the accents of the Portuguese original) or the \<open>message\<close> of a collaborator's error.
  The statuses carry the outcome classes of the specification: 401 is
  \<open>Unauthenticated\<close>, 403 \<open>Forbidden\<close>, 404 \<open>NotFound\<close>, 400 a rejected input and 500
  \<open>InternalError\<close>.
\<close>

datatype error_text = Msg js_string | StoreMessage store_error | AuthMessage auth_error

record estabelecimento_completo =
  ec_row :: estabelecimento_row
  ec_jammers :: "jammers_row list"
  ec_total_jammers :: nat

datatype body =
    ErrorBody error_text
  | MessageBody js_string
  | SignupBody js_string js_string
  | UserBody auth_user
  | EstabelecimentosBody "estabelecimento_row list" nat
  | CompletoBody "estabelecimento_completo list" nat nat
  | JammersBody "jammers_row list" nat
  | JammerBody js_string jammers_row
  | UsuariosBody "users_row list" nat
  | EstabelecimentoBody js_string estabelecimento_row
  | JammerCreatedBody js_string jammers_row "nat \<times> js_string \<times> js_string \<times> js_string option"
  | AdminEstabelecimentosBody "(estabelecimento_row \<times> (js_string \<times> js_string) option) list" nat
  | AdminJammersBody
      "(jammers_row \<times> (estabelecimento_row \<times> (js_string \<times> js_string) option) option) list" nat

record response =
  status :: nat
  body :: body

definition json :: "nat \<Rightarrow> body \<Rightarrow> response" where
  "json code b = \<lparr>status = code, body = b\<rparr>"

definition err :: "nat \<Rightarrow> string \<Rightarrow> response" where
  "err code text = json code (ErrorBody (Msg (js text)))"

section \<open>Authentication and the admin guard\<close>

text \<open>
  \<open>app.METHOD(path, middleware, handler)\<close>: the handler runs on the request the
  middleware passes to \<open>next()\<close>; a middleware that answers ends the request.
\<close>

definition guarded ::
  "(request \<Rightarrow> world \<Rightarrow> (response + request) \<times> world) \<Rightarrow>
   (request \<Rightarrow> world \<Rightarrow> response \<times> world) \<Rightarrow> request \<Rightarrow> world \<Rightarrow> response \<times> world" where
  "guarded middleware handler req w =
     (case middleware req w of
        (Inl res, w') \<Rightarrow> (res, w')
      | (Inr req', w') \<Rightarrow> handler req' w')"

text \<open>\<open>verificarAutenticacao\<close> and \<open>verificarAdmin\<close> of the file with the middleware.\<close>

definition verificarAutenticacao :: "request \<Rightarrow> world \<Rightarrow> (response + request) \<times> world" where
  "verificarAutenticacao req w =
     (case authorization req of
        None \<Rightarrow> (Inl (err 401 ''Token nao fornecido.''), w)
      | Some authHeader \<Rightarrow>
          if authHeader = [] then (Inl (err 401 ''Token nao fornecido.''), w)
          else
            (case getUser (replace_first (js ''Bearer '') [] authHeader) w of
               (Inl error, w') \<Rightarrow> (Inl (err 401 ''Token invalido ou sessao expirada.''), w')
             | (Inr u, w') \<Rightarrow> (Inr (req\<lparr>user := Some u\<rparr>), w')))"

definition verificarAdmin :: "request \<Rightarrow> world \<Rightarrow> (response + request) \<times> world" where
  "verificarAdmin req w =
     (case authorization req of
        None \<Rightarrow> (Inl (err 401 ''Token nao fornecido.''), w)
      | Some authHeader \<Rightarrow>
          if authHeader = [] then (Inl (err 401 ''Token nao fornecido.''), w)
          else
            (case getUser (replace_first (js ''Bearer '') [] authHeader) w of
               (Inl error, w') \<Rightarrow> (Inl (err 401 ''Token invalido.''), w')
             | (Inr u, w') \<Rightarrow>
                 (case single (filter (\<lambda>r. u_id r = au_id u) (users (db w'))) of
                    Inl userError \<Rightarrow> (Inl (err 500 ''Erro ao verificar permissoes.''), w')
                  | Inr userData \<Rightarrow>
                      if \<not> u_is_admin userData
                      then (Inl (err 403 ''Acesso negado. Apenas administradores.''), w')
                      else (Inr (req\<lparr>user := Some u\<rparr>), w'))))"

text \<open>
  \<open>verificarAdmin\<close> of \<open>API_node.js\<close>: the token is taken with
  \<open>req.headers.authorization?.replace('Bearer ', '')\<close> and tested after the
  replacement, and a failed lookup of the user row is answered like a missing flag.
\<close>

definition bearer :: "request \<Rightarrow> js_string option" where
  "bearer req = map_option (replace_first (js ''Bearer '') []) (authorization req)"

definition verificarAdmin_node :: "request \<Rightarrow> world \<Rightarrow> (response + request) \<times> world" where
  "verificarAdmin_node req w =
     (case bearer req of
        None \<Rightarrow> (Inl (err 401 ''Token nao fornecido.''), w)
      | Some token \<Rightarrow>
          if token = [] then (Inl (err 401 ''Token nao fornecido.''), w)
          else
            (case getUser token w of
               (Inl error, w') \<Rightarrow> (Inl (err 401 ''Token invalido.''), w')
             | (Inr u, w') \<Rightarrow>
                 (case single (filter (\<lambda>r. u_id r = au_id u) (users (db w'))) of
                    Inl userError \<Rightarrow> (Inl (err 403 ''Acesso negado. Apenas administradores.''), w')
                  | Inr userData \<Rightarrow>
                      if \<not> u_is_admin userData
                      then (Inl (err 403 ''Acesso negado. Apenas administradores.''), w')
                      else (Inr (req\<lparr>user := Some u\<rparr>), w'))))"

section \<open>Account routes\<close>

text \<open>
  \<open>POST /signup\<close>, \<open>POST /forgot-password\<close> and \<open>POST /reset-password\<close> have the same
  text in both source files. \<open>POST /login\<close> and \<open>GET /health\<close> take no part in the
  access rules and are left out.
\<close>

definition signup :: "request \<Rightarrow> world \<Rightarrow> response \<times> world" where
  "signup req w =
     (case (body_email req, body_password req) of
        (Some email, Some password) \<Rightarrow>
          if email = [] \<or> \<not> truthy password
            then (err 400 ''E-mail e senha sao obrigatorios.'', w)
          else if \<not> validateEmail email then (err 400 ''E-mail invalido.'', w)
          else if length_lt_6 password
            then (err 400 ''A senha deve ter no minimo 6 caracteres.'', w)
          else
            (case maybeSingle (filter (\<lambda>r. u_email r = email) (users (db w))) of
               Inr (Some userExists) \<Rightarrow> (err 400 ''E-mail ja esta cadastrado.'', w)
             | _ \<Rightarrow>
                 (case signUp email password w of
                    (Inl signUpError, w') \<Rightarrow> (json 400 (ErrorBody (AuthMessage signUpError)), w')
                  | (Inr None, w') \<Rightarrow> (err 400 ''Erro ao criar usuario.'', w')
                  | (Inr (Some u), w') \<Rightarrow>
                      (case insert_users \<lparr>u_id = au_id u, u_email = email, u_user_name = email,
                                           u_is_admin = False\<rparr> (db w') of
                         (Some insertError, s') \<Rightarrow>
                           (json 400 (ErrorBody (StoreMessage insertError)),
                            stored [InsertUsers (au_id u)] s' w')
                       | (None, s') \<Rightarrow>
                           (json 201 (SignupBody (js ''Usuario cadastrado com sucesso.'') (au_id u)),
                            stored [InsertUsers (au_id u)] s' w'))))
      | _ \<Rightarrow> (err 400 ''E-mail e senha sao obrigatorios.'', w))"

definition forgot_password :: "request \<Rightarrow> world \<Rightarrow> response \<times> world" where
  "forgot_password req w =
     (case body_email req of
        None \<Rightarrow> (err 400 ''O e-mail e obrigatorio.'', w)
      | Some email \<Rightarrow>
          if email = [] then (err 400 ''O e-mail e obrigatorio.'', w)
          else if \<not> validateEmail email then (err 400 ''E-mail invalido.'', w)
          else
            (json 200 (MessageBody (js
               ''Se o e-mail estiver registrado, voce recebera um link de redefinicao em sua caixa de entrada.'')),
             resetPasswordForEmail email w))"

definition reset_password :: "request \<Rightarrow> world \<Rightarrow> response \<times> world" where
  "reset_password req w =
     (case (body_access_token req, body_new_password req) of
        (Some access_token, Some new_password) \<Rightarrow>
          if access_token = [] \<or> \<not> truthy new_password
            then (err 400 ''Token e nova senha sao obrigatorios.'', w)
          else if length_lt_6 new_password
            then (err 400 ''A senha deve ter no minimo 6 caracteres.'', w)
          else
            (case updateUser new_password (setSession access_token None w) of
               (Some error, w') \<Rightarrow> (err 400 ''Erro ao atualizar senha.'', w')
             | (None, w') \<Rightarrow> (json 200 (MessageBody (js ''Senha atualizada com sucesso.'')), w'))
      | _ \<Rightarrow> (err 400 ''Token e nova senha sao obrigatorios.'', w))"

section \<open>User routes of the file with the middleware\<close>

text \<open>
  Each definition is the handler that follows \<open>verificarAutenticacao\<close> in the route.
  Reading \<open>req.user.id\<close> when \<open>req.user\<close> is not set throws; the handler's
  \<open>catch\<close> answers 500.
\<close>

definition verify_session_handler :: "request \<Rightarrow> world \<Rightarrow> response \<times> world" where
  "verify_session_handler req w =
     (case user req of
        None \<Rightarrow> (err 500 ''Erro interno do servidor.'', w)
      | Some u \<Rightarrow> (json 200 (UserBody u), w))"

definition user_estabelecimentos_handler :: "request \<Rightarrow> world \<Rightarrow> response \<times> world" where
  "user_estabelecimentos_handler req w =
     (case user req of
        None \<Rightarrow> (err 500 ''Erro interno do servidor.'', w)
      | Some u \<Rightarrow>
          if au_id u \<noteq> param_userId req
            then (err 403 ''Voce nao tem permissao para acessar estes dados.'', w)
          else
            (let estabelecimentos =
                   sort_key e_nome
                     (filter (\<lambda>e. e_user_id e = param_userId req) (estabelecimento (db w)))
             in (json 200 (EstabelecimentosBody estabelecimentos (length estabelecimentos)), w)))"

text \<open>
  \<open>select('*, jammers (*)')\<close> embeds in every establishment the jammers that point to it.
\<close>

definition user_estabelecimentos_completo_handler :: "request \<Rightarrow> world \<Rightarrow> response \<times> world" where
  "user_estabelecimentos_completo_handler req w =
     (case user req of
        None \<Rightarrow> (err 500 ''Erro interno do servidor.'', w)
      | Some u \<Rightarrow>
          if au_id u \<noteq> param_userId req
            then (err 403 ''Voce nao tem permissao para acessar estes dados.'', w)
          else
            (let estabelecimentos =
                   sort_key e_nome
                     (filter (\<lambda>e. e_user_id e = param_userId req) (estabelecimento (db w)));
                 estabelecimentosComTotais =
                   map (\<lambda>estab.
                          (let js = filter (\<lambda>j. j_id_estabelecimento j = e_id estab) (jammers (db w))
                           in \<lparr>ec_row = estab, ec_jammers = js, ec_total_jammers = length js\<rparr>))
                       estabelecimentos
             in (json 200 (CompletoBody estabelecimentosComTotais (length estabelecimentosComTotais)
                             (foldl (\<lambda>acc e. acc + ec_total_jammers e) 0 estabelecimentosComTotais)),
                 w)))"

definition estabelecimento_jammers_handler :: "request \<Rightarrow> world \<Rightarrow> response \<times> world" where
  "estabelecimento_jammers_handler req w =
     (case single (filter (\<lambda>e. e_id e = param_estabelecimentoId req) (estabelecimento (db w))) of
        Inl estabError \<Rightarrow> (err 404 ''Estabelecimento nao encontrado.'', w)
      | Inr estab \<Rightarrow>
          (case user req of
             None \<Rightarrow> (err 500 ''Erro interno do servidor.'', w)
           | Some u \<Rightarrow>
               if e_user_id estab \<noteq> au_id u
                 then (err 403 ''Voce nao tem permissao para acessar estes dados.'', w)
               else
                 (let data = sort_key j_id
                       (filter (\<lambda>j. j_id_estabelecimento j = param_estabelecimentoId req)
                          (jammers (db w)))
                  in (json 200 (JammersBody data (length data)), w))))"

text \<open>
  \<open>PATCH /jammer/:jammerId\<close>. The jammer is read with its parent establishment
  embedded; \<open>jammerData.estabelecimento.user_id\<close> throws when there is no parent.
\<close>

definition patch_jammer_handler :: "request \<Rightarrow> world \<Rightarrow> response \<times> world" where
  "patch_jammer_handler req w =
     (case body_estado_jammer req of
        None \<Rightarrow> (err 400 ''estado_jammer e obrigatorio.'', w)
      | Some estado_jammer \<Rightarrow>
          (case single (filter (\<lambda>j. j_id j = param_jammerId req) (jammers (db w))) of
             Inl jammerError \<Rightarrow> (err 404 ''Jammer nao encontrado.'', w)
           | Inr jammerData \<Rightarrow>
               (case (embed_estabelecimento (db w) jammerData, user req) of
                  (Some estab, Some u) \<Rightarrow>
                    if e_user_id estab \<noteq> au_id u
                      then (err 403 ''Voce nao tem permissao para alterar este jammer.'', w)
                    else
                      (case update_estado_jammer (param_jammerId req) estado_jammer (db w) of
                         (Inl error, s') \<Rightarrow>
                           (json 400 (ErrorBody (StoreMessage error)),
                            stored [UpdateJammers (param_jammerId req) estado_jammer] s' w)
                       | (Inr updatedJammer, s') \<Rightarrow>
                           (json 200 (JammerBody (js ''Jammer atualizado com sucesso.'') updatedJammer),
                            stored [UpdateJammers (param_jammerId req) estado_jammer] s' w))
                | _ \<Rightarrow> (err 500 ''Erro interno do servidor.'', w))))"

section \<open>User routes of API_node.js\<close>

text \<open>
  \<open>API_node.js\<close> has no authentication middleware: a route that authenticates does it
  in its own body, and two routes do not.
\<close>

definition verify_session_node :: "request \<Rightarrow> world \<Rightarrow> response \<times> world" where
  "verify_session_node req w =
     (case bearer req of
        None \<Rightarrow> (err 401 ''Token nao fornecido.'', w)
      | Some token \<Rightarrow>
          if token = [] then (err 401 ''Token nao fornecido.'', w)
          else
            (case getUser token w of
               (Inl error, w') \<Rightarrow> (err 401 ''Sessao invalida.'', w')
             | (Inr u, w') \<Rightarrow> (json 200 (UserBody u), w')))"

definition user_estabelecimentos_node :: "request \<Rightarrow> world \<Rightarrow> response \<times> world" where
  "user_estabelecimentos_node req w =
     (case bearer req of
        None \<Rightarrow> (err 401 ''Token nao fornecido.'', w)
      | Some token \<Rightarrow>
          if token = [] then (err 401 ''Token nao fornecido.'', w)
          else
            (case getUser token w of
               (Inl authError, w') \<Rightarrow> (err 401 ''Token invalido.'', w')
             | (Inr u, w') \<Rightarrow>
                 if au_id u \<noteq> param_userId req
                   then (err 403 ''Voce nao tem permissao para acessar estes dados.'', w')
                 else
                   (let data = sort_key e_nome
                         (filter (\<lambda>e. e_user_id e = param_userId req) (estabelecimento (db w')))
                    in (json 200 (EstabelecimentosBody data (length data)), w'))))"

text \<open>
  \<open>GET /user/:userId/estabelecimentos-completo\<close> of \<open>API_node.js\<close> reads neither the
  header nor a principal: it queries the establishments of \<open>userId\<close> and, for each, its
  jammers ordered by id.
\<close>

definition user_estabelecimentos_completo_node :: "request \<Rightarrow> world \<Rightarrow> response \<times> world" where
  "user_estabelecimentos_completo_node req w =
     (let estabelecimentos =
            sort_key e_nome
              (filter (\<lambda>e. e_user_id e = param_userId req) (estabelecimento (db w)));
          estabelecimentosComJammers =
            map (\<lambda>estab.
                   (let js = sort_key j_id
                          (filter (\<lambda>j. j_id_estabelecimento j = e_id estab) (jammers (db w)))
                    in \<lparr>ec_row = estab, ec_jammers = js, ec_total_jammers = length js\<rparr>))
                estabelecimentos
      in (json 200 (CompletoBody estabelecimentosComJammers (length estabelecimentosComJammers)
                      (foldl (\<lambda>acc e. acc + ec_total_jammers e) 0 estabelecimentosComJammers)),
          w))"

text \<open>\<open>GET /estabelecimento/:estabelecimentoId/jammers\<close> of \<open>API_node.js\<close>, likewise.\<close>

definition estabelecimento_jammers_node :: "request \<Rightarrow> world \<Rightarrow> response \<times> world" where
  "estabelecimento_jammers_node req w =
     (let data = sort_key j_id
            (filter (\<lambda>j. j_id_estabelecimento j = param_estabelecimentoId req) (jammers (db w)))
      in (json 200 (JammersBody data (length data)), w))"

text \<open>
  \<open>PATCH /jammer/:jammerId\<close> of \<open>API_node.js\<close>: the body is checked first, then the
  token, then the jammer and its owner.
\<close>

definition patch_jammer_node :: "request \<Rightarrow> world \<Rightarrow> response \<times> world" where
  "patch_jammer_node req w =
     (case body_estado_jammer req of
        None \<Rightarrow> (err 400 ''estado_jammer e obrigatorio.'', w)
      | Some estado_jammer \<Rightarrow>
          (case bearer req of
             None \<Rightarrow> (err 401 ''Token nao fornecido.'', w)
           | Some token \<Rightarrow>
               if token = [] then (err 401 ''Token nao fornecido.'', w)
               else
                 (case getUser token w of
                    (Inl authError, w') \<Rightarrow> (err 401 ''Token invalido.'', w')
                  | (Inr u, w') \<Rightarrow>
                      (case single (filter (\<lambda>j. j_id j = param_jammerId req) (jammers (db w'))) of
                         Inl jammerError \<Rightarrow> (err 404 ''Jammer nao encontrado.'', w')
                       | Inr jammerData \<Rightarrow>
                           (case embed_estabelecimento (db w') jammerData of
                              None \<Rightarrow> (err 500 ''Erro interno do servidor.'', w')
                            | Some estab \<Rightarrow>
                                if e_user_id estab \<noteq> au_id u
                                  then (err 403 ''Voce nao tem permissao para alterar este jammer.'', w')
                                else
                                  (case update_estado_jammer (param_jammerId req) estado_jammer (db w') of
                                     (Inl error, s') \<Rightarrow>
                                       (json 400 (ErrorBody (StoreMessage error)),
                                        stored [UpdateJammers (param_jammerId req) estado_jammer] s' w')
                                   | (Inr data, s') \<Rightarrow>
                                       (json 200 (JammerBody (js ''Jammer atualizado com sucesso.'') data),
                                        stored [UpdateJammers (param_jammerId req) estado_jammer] s' w')))))))"

section \<open>Admin routes\<close>

text \<open>
  The handlers behind \<open>verificarAdmin\<close>, with the same text in both source files. None
  of them reads \<open>req.user\<close>. \<open>0x22\<close> is the double quote of the two template texts.
\<close>

definition admin_usuarios_handler :: "request \<Rightarrow> world \<Rightarrow> response \<times> world" where
  "admin_usuarios_handler req w =
     (let usuarios = sort_key u_email (users (db w))
      in (json 200 (UsuariosBody usuarios (length usuarios)), w))"

definition admin_post_estabelecimento_handler :: "request \<Rightarrow> world \<Rightarrow> response \<times> world" where
  "admin_post_estabelecimento_handler req w =
     (case (body_user_id req, body_nome req, body_cep req) of
        (Some user_id, Some nome, Some cep) \<Rightarrow>
          if user_id = [] \<or> nome = [] \<or> cep = []
            then (err 400 ''user_id, nome e cep sao obrigatorios.'', w)
          else
            (case single (filter (\<lambda>r. u_id r = user_id) (users (db w))) of
               Inl userError \<Rightarrow> (err 404 ''Usuario nao encontrado.'', w)
             | Inr userExists \<Rightarrow>
                 (case insert_estabelecimento user_id nome cep (db w) of
                    (Inl error, s') \<Rightarrow>
                      (json 400 (ErrorBody (StoreMessage error)),
                       stored [InsertEstabelecimento user_id] s' w)
                  | (Inr data, s') \<Rightarrow>
                      (json 201 (EstabelecimentoBody
                         (js ''Estabelecimento '' @ [0x22] @ nome @ [0x22] @
                          js '' criado com sucesso para '' @ u_email userExists @ js ''.'') data),
                       stored [InsertEstabelecimento user_id] s' w)))
      | _ \<Rightarrow> (err 400 ''user_id, nome e cep sao obrigatorios.'', w))"

definition admin_post_jammer_handler :: "request \<Rightarrow> world \<Rightarrow> response \<times> world" where
  "admin_post_jammer_handler req w =
     (case body_id_estabelecimento req of
        None \<Rightarrow> (err 400 ''id_estabelecimento e obrigatorio.'', w)
      | Some id_estabelecimento \<Rightarrow>
          if id_estabelecimento = 0 then (err 400 ''id_estabelecimento e obrigatorio.'', w)
          else
            (case single (filter (\<lambda>e. e_id e = id_estabelecimento) (estabelecimento (db w))) of
               Inl estabError \<Rightarrow> (err 404 ''Estabelecimento nao encontrado.'', w)
             | Inr estabExists \<Rightarrow>
                 (case insert_jammers id_estabelecimento
                         (case body_estado_jammer req of None \<Rightarrow> False | Some e \<Rightarrow> e) (db w) of
                    (Inl error, s') \<Rightarrow>
                      (json 400 (ErrorBody (StoreMessage error)),
                       stored [InsertJammers id_estabelecimento] s' w)
                  | (Inr data, s') \<Rightarrow>
                      (json 201 (JammerCreatedBody
                         (js ''Jammer criado com sucesso para '' @ [0x22] @ e_nome estabExists @ [0x22] @
                          js ''.'')
                         data
                         (e_id estabExists, e_nome estabExists, e_user_id estabExists,
                          map_option u_email (embed_users (db w) estabExists))),
                       stored [InsertJammers id_estabelecimento] s' w))))"

definition admin_estabelecimentos_handler :: "request \<Rightarrow> world \<Rightarrow> response \<times> world" where
  "admin_estabelecimentos_handler req w =
     (let estabelecimentos =
            map (\<lambda>e. (e, map_option (\<lambda>u. (u_email u, u_user_name u)) (embed_users (db w) e)))
                (sort_key e_nome (estabelecimento (db w)))
      in (json 200 (AdminEstabelecimentosBody estabelecimentos (length estabelecimentos)), w))"

definition admin_jammers_handler :: "request \<Rightarrow> world \<Rightarrow> response \<times> world" where
  "admin_jammers_handler req w =
     (let jammers' =
            map (\<lambda>j. (j, map_option
                           (\<lambda>e. (e, map_option (\<lambda>u. (u_email u, u_user_name u)) (embed_users (db w) e)))
                           (embed_estabelecimento (db w) j)))
                (sort_key j_id (jammers (db w)))
      in (json 200 (AdminJammersBody jammers' (length jammers')), w))"

text \<open>
  \<open>DELETE /admin/estabelecimento/:id\<close>: two store calls, one after the other. The first
  deletes the jammers of the establishment, and its result is not looked at; the second
  deletes the establishment, and an error of it is answered with status 400 and the
  error's message.
\<close>

definition admin_delete_estabelecimento_handler :: "request \<Rightarrow> world \<Rightarrow> response \<times> world" where
  "admin_delete_estabelecimento_handler req w =
     (let w1 = stored [DeleteJammersOf (param_id req)]
                 (delete_jammers_of (param_id req) (db w)) w
      in case delete_estabelecimento (param_id req) (db w1) of
           (Inl error, s') \<Rightarrow>
             (json 400 (ErrorBody (StoreMessage error)),
              stored [DeleteEstabelecimento (param_id req)] s' w1)
         | (Inr data, s') \<Rightarrow>
             (json 200 (EstabelecimentoBody
                (js ''Estabelecimento e seus jammers deletados com sucesso.'') data),
              stored [DeleteEstabelecimento (param_id req)] s' w1))"

definition admin_delete_jammer_handler :: "request \<Rightarrow> world \<Rightarrow> response \<times> world" where
  "admin_delete_jammer_handler req w =
     (case delete_jammer (param_id req) (db w) of
        (Inl error, s') \<Rightarrow>
          (json 400 (ErrorBody (StoreMessage error)), stored [DeleteJammers (param_id req)] s' w)
      | (Inr data, s') \<Rightarrow>
          (json 200 (JammerBody (js ''Jammer deletado com sucesso.'') data),
           stored [DeleteJammers (param_id req)] s' w))"

section \<open>The two route tables\<close>

datatype route =
    POST_signup
  | POST_forgot_password
  | POST_reset_password
  | GET_verify_session
  | GET_user_estabelecimentos
  | GET_user_estabelecimentos_completo
  | GET_estabelecimento_jammers
  | PATCH_jammer
  | GET_admin_usuarios
  | POST_admin_estabelecimento
  | POST_admin_jammer
  | GET_admin_estabelecimentos
  | GET_admin_jammers
  | DELETE_admin_estabelecimento
  | DELETE_admin_jammer

fun admin_handler :: "route \<Rightarrow> (request \<Rightarrow> world \<Rightarrow> response \<times> world) option" where
  "admin_handler GET_admin_usuarios = Some admin_usuarios_handler"
| "admin_handler POST_admin_estabelecimento = Some admin_post_estabelecimento_handler"
| "admin_handler POST_admin_jammer = Some admin_post_jammer_handler"
| "admin_handler GET_admin_estabelecimentos = Some admin_estabelecimentos_handler"
| "admin_handler GET_admin_jammers = Some admin_jammers_handler"
| "admin_handler DELETE_admin_estabelecimento = Some admin_delete_estabelecimento_handler"
| "admin_handler DELETE_admin_jammer = Some admin_delete_jammer_handler"
| "admin_handler _ = None"

text \<open>The routes of the file with the middleware.\<close>

fun serve :: "route \<Rightarrow> request \<Rightarrow> world \<Rightarrow> response \<times> world" where
  "serve POST_signup = signup"
| "serve POST_forgot_password = forgot_password"
| "serve POST_reset_password = reset_password"
| "serve GET_verify_session = guarded verificarAutenticacao verify_session_handler"
| "serve GET_user_estabelecimentos = guarded verificarAutenticacao user_estabelecimentos_handler"
| "serve GET_user_estabelecimentos_completo =
     guarded verificarAutenticacao user_estabelecimentos_completo_handler"
| "serve GET_estabelecimento_jammers = guarded verificarAutenticacao estabelecimento_jammers_handler"
| "serve PATCH_jammer = guarded verificarAutenticacao patch_jammer_handler"
| "serve GET_admin_usuarios = guarded verificarAdmin admin_usuarios_handler"
| "serve POST_admin_estabelecimento = guarded verificarAdmin admin_post_estabelecimento_handler"
| "serve POST_admin_jammer = guarded verificarAdmin admin_post_jammer_handler"
| "serve GET_admin_estabelecimentos = guarded verificarAdmin admin_estabelecimentos_handler"
| "serve GET_admin_jammers = guarded verificarAdmin admin_jammers_handler"
| "serve DELETE_admin_estabelecimento = guarded verificarAdmin admin_delete_estabelecimento_handler"
| "serve DELETE_admin_jammer = guarded verificarAdmin admin_delete_jammer_handler"

text \<open>The routes of \<open>API_node.js\<close>.\<close>

fun serve_node :: "route \<Rightarrow> request \<Rightarrow> world \<Rightarrow> response \<times> world" where
  "serve_node POST_signup = signup"
| "serve_node POST_forgot_password = forgot_password"
| "serve_node POST_reset_password = reset_password"
| "serve_node GET_verify_session = verify_session_node"
| "serve_node GET_user_estabelecimentos = user_estabelecimentos_node"
| "serve_node GET_user_estabelecimentos_completo = user_estabelecimentos_completo_node"
| "serve_node GET_estabelecimento_jammers = estabelecimento_jammers_node"
| "serve_node PATCH_jammer = patch_jammer_node"
| "serve_node GET_admin_usuarios = guarded verificarAdmin_node admin_usuarios_handler"
| "serve_node POST_admin_estabelecimento =
     guarded verificarAdmin_node admin_post_estabelecimento_handler"
| "serve_node POST_admin_jammer = guarded verificarAdmin_node admin_post_jammer_handler"
| "serve_node GET_admin_estabelecimentos = guarded verificarAdmin_node admin_estabelecimentos_handler"
| "serve_node GET_admin_jammers = guarded verificarAdmin_node admin_jammers_handler"
| "serve_node DELETE_admin_estabelecimento =
     guarded verificarAdmin_node admin_delete_estabelecimento_handler"
| "serve_node DELETE_admin_jammer = guarded verificarAdmin_node admin_delete_jammer_handler"

section \<open>Notions the properties are stated with\<close>

text \<open>
  The resolved principal of a request: the principal the identity provider gives for the
  token of the \<open>Authorization\<close> header, when the header carries a non-empty token.
  \<open>asked\<close> is the world after that one call to \<open>getUser\<close>: only the call log differs.
\<close>

definition resolve :: "request \<Rightarrow> world \<Rightarrow> auth_user option" where
  "resolve req w =
     (case bearer req of
        None \<Rightarrow> None
      | Some token \<Rightarrow> if token = [] then None else map_of (sessions (idp w)) token)"

definition asked :: "request \<Rightarrow> world \<Rightarrow> world" where
  "asked req w = (case bearer req of None \<Rightarrow> w | Some token \<Rightarrow> snd (getUser token w))"

text \<open>Primary keys are unique.\<close>

definition wf_store :: "store \<Rightarrow> bool" where
  "wf_store s \<longleftrightarrow>
     distinct (map u_id (users s)) \<and>
     distinct (map e_id (estabelecimento s)) \<and>
     distinct (map j_id (jammers s))"

text \<open>
  The routes that resolve the caller before anything else is done for them: in the file
  with the middleware, every route behind \<open>verificarAutenticacao\<close> or \<open>verificarAdmin\<close>;
  in \<open>API_node.js\<close>, the routes whose body, or whose \<open>verificarAdmin\<close>, reads the
  token.
\<close>

fun protected :: "route \<Rightarrow> bool" where
  "protected POST_signup = False"
| "protected POST_forgot_password = False"
| "protected POST_reset_password = False"
| "protected _ = True"

fun protected_node :: "route \<Rightarrow> bool" where
  "protected_node POST_signup = False"
| "protected_node POST_forgot_password = False"
| "protected_node POST_reset_password = False"
| "protected_node GET_user_estabelecimentos_completo = False"
| "protected_node GET_estabelecimento_jammers = False"
| "protected_node _ = True"

subsection \<open>A small world for concrete runs\<close>

text \<open>
  Three users (\<open>u1\<close>, \<open>u2\<close> and the administrator \<open>adm\<close>), one establishment (7, of
  \<open>u2\<close>) with the jammers 41 and 42, and one token for each user. A fourth principal,
  \<open>u9\<close>, has an account and a token at the identity provider and no row in \<open>users\<close>,
  as after a sign-up whose insert failed.
\<close>

definition ana :: auth_user where
  "ana = \<lparr>au_id = js ''u1'', au_email = js ''ana@x.io''\<rparr>"

definition bia :: auth_user where
  "bia = \<lparr>au_id = js ''u2'', au_email = js ''bia@x.io''\<rparr>"

definition root :: auth_user where
  "root = \<lparr>au_id = js ''adm'', au_email = js ''root@x.io''\<rparr>"

definition eva :: auth_user where
  "eva = \<lparr>au_id = js ''u9'', au_email = js ''eva@x.io''\<rparr>"

definition loja :: estabelecimento_row where
  "loja = \<lparr>e_id = 7, e_user_id = js ''u2'', e_nome = js ''Loja'', e_cep = js ''01000''\<rparr>"

definition example_store :: store where
  "example_store =
     \<lparr>users =
        [\<lparr>u_id = js ''u1'', u_email = js ''ana@x.io'', u_user_name = js ''ana@x.io'', u_is_admin = False\<rparr>,
         \<lparr>u_id = js ''u2'', u_email = js ''bia@x.io'', u_user_name = js ''bia@x.io'', u_is_admin = False\<rparr>,
         \<lparr>u_id = js ''adm'', u_email = js ''root@x.io'', u_user_name = js ''root@x.io'', u_is_admin = True\<rparr>],
      estabelecimento = [loja],
      jammers =
        [\<lparr>j_id = 41, j_id_estabelecimento = 7, j_estado_jammer = False\<rparr>,
         \<lparr>j_id = 42, j_id_estabelecimento = 7, j_estado_jammer = False\<rparr>],
      estabelecimento_seq = 8,
      jammers_seq = 43\<rparr>"

definition example_idp :: identity_provider where
  "example_idp =
     \<lparr>accounts =
        [\<lparr>acc_id = js ''u1'', acc_email = js ''ana@x.io'', acc_password = Str (js ''secret1'')\<rparr>,
         \<lparr>acc_id = js ''u2'', acc_email = js ''bia@x.io'', acc_password = Str (js ''secret2'')\<rparr>,
         \<lparr>acc_id = js ''adm'', acc_email = js ''root@x.io'', acc_password = Str (js ''secret3'')\<rparr>,
         \<lparr>acc_id = js ''u9'', acc_email = js ''eva@x.io'', acc_password = Str (js ''secret9'')\<rparr>],
      sessions = [(js ''t1'', ana), (js ''t2'', bia), (js ''t0'', root), (js ''t9'', eva)],
      client_session = None,
      id_supply = [js ''u3'', js ''u4''],
      getUser_calls = [],
      resetPassword_calls = []\<rparr>"

definition example_world :: world where
  "example_world = \<lparr>db = example_store, idp = example_idp, store_calls = []\<rparr>"

text \<open>A request that carries the token \<open>t\<close> as \<open>Authorization: Bearer t\<close>.\<close>

definition with_token :: "string \<Rightarrow> request" where
  "with_token t = blank_request\<lparr>authorization := Some (js ''Bearer '' @ js t)\<rparr>"

section \<open>The regular expression: matching decides the language\<close>

lemma OneOrMoreI: "ws \<noteq> [] \<Longrightarrow> set ws \<subseteq> lang p \<Longrightarrow> concat ws \<in> lang (OneOrMore p)"
  by auto

lemma ThenI: "u \<in> lang p \<Longrightarrow> v \<in> lang q \<Longrightarrow> u @ v \<in> lang (Then p q)"
  by auto

lemma concat_nonempty_pieces:
  assumes "concat ws = c # w" "set ws \<subseteq> L"
  shows "\<exists>x xs. c # x \<in> L \<and> set xs \<subseteq> L \<and> w = x @ concat xs"
  using assms
proof (induction ws)
  case Nil
  then show ?case by simp
next
  case (Cons y ys)
  show ?case
  proof (cases y)
    case Nil
    with Cons show ?thesis by simp
  next
    case (Cons d y')
    with Cons.prems have "d = c" "w = y' @ concat ys" "c # y' \<in> L" "set ys \<subseteq> L"
      by auto
    then show ?thesis by blast
  qed
qed

lemma nullable_iff: "nullable p \<longleftrightarrow> [] \<in> lang p"
proof (induction p)
  case (OneOrMore p)
  show ?case
  proof
    assume "nullable (OneOrMore p)"
    with OneOrMore have "[] \<in> lang p" by simp
    then show "[] \<in> lang (OneOrMore p)" using OneOrMoreI[of "[[]]" p] by simp
  next
    assume "[] \<in> lang (OneOrMore p)"
    then obtain ws where ws: "concat ws = []" "ws \<noteq> []" "set ws \<subseteq> lang p" by auto
    then obtain x xs where "ws = x # xs" by (cases ws) auto
    with ws have "x = []" "x \<in> lang p" by auto
    with OneOrMore show "nullable (OneOrMore p)" by simp
  qed
qed auto

lemma deriv_iff: "w \<in> lang (deriv c p) \<longleftrightarrow> c # w \<in> lang p"
proof (induction p arbitrary: w)
  case (OneOrMore p)
  show ?case
  proof
    assume "w \<in> lang (deriv c (OneOrMore p))"
    then obtain u v where uv: "w = u @ v" "u \<in> lang (deriv c p)"
      "v = [] \<or> v \<in> lang (OneOrMore p)" by auto
    from uv(2) OneOrMore have cu: "c # u \<in> lang p" by simp
    from uv(3) obtain ws where ws: "v = concat ws" "set ws \<subseteq> lang p"
    proof
      assume "v = []"
      then have "v = concat []" "set [] \<subseteq> lang p" by simp_all
      then show ?thesis using that by blast
    next
      assume "v \<in> lang (OneOrMore p)"
      then show ?thesis using that by auto
    qed
    show "c # w \<in> lang (OneOrMore p)"
      using OneOrMoreI[of "(c # u) # ws" p] cu ws uv(1) by simp
  next
    assume "c # w \<in> lang (OneOrMore p)"
    then obtain ws where "concat ws = c # w" "set ws \<subseteq> lang p" by auto
    from concat_nonempty_pieces[OF this]
    obtain x xs where x: "c # x \<in> lang p" "set xs \<subseteq> lang p" "w = x @ concat xs" by blast
    from x(1) OneOrMore have "x \<in> lang (deriv c p)" by simp
    moreover have "concat xs \<in> lang (Either Empty (OneOrMore p))"
    proof (cases xs)
      case Nil
      then show ?thesis by simp
    next
      case (Cons a list)
      then have "xs \<noteq> []" by simp
      with x(2) show ?thesis using OneOrMoreI[of xs p] by simp
    qed
    ultimately show "w \<in> lang (deriv c (OneOrMore p))"
      using x(3) ThenI[of x "deriv c p" "concat xs" "Either Empty (OneOrMore p)"] by simp
  qed
next
  case (Then p q)
  show ?case
  proof
    assume "w \<in> lang (deriv c (Then p q))"
    then consider u v where "w = u @ v" "u \<in> lang (deriv c p)" "v \<in> lang q"
      | "nullable p" "w \<in> lang (deriv c q)"
      by (auto split: if_splits)
    then show "c # w \<in> lang (Then p q)"
    proof cases
      case 1
      then have "c # u \<in> lang p" using Then by simp
      with 1 show ?thesis using ThenI[of "c # u" p v q] by simp
    next
      case 2
      then have "[] \<in> lang p" "c # w \<in> lang q" using Then nullable_iff by simp_all
      then show ?thesis using ThenI[of "[]" p "c # w" q] by simp
    qed
  next
    assume "c # w \<in> lang (Then p q)"
    then obtain u v where uv: "c # w = u @ v" "u \<in> lang p" "v \<in> lang q" by auto
    show "w \<in> lang (deriv c (Then p q))"
    proof (cases u)
      case Nil
      with uv have "nullable p" "w \<in> lang (deriv c q)" using Then nullable_iff by simp_all
      then show ?thesis by simp
    next
      case (Cons d u')
      with uv have "d = c" "w = u' @ v" "u' \<in> lang (deriv c p)" using Then by simp_all
      with uv(3) have "w \<in> lang (Then (deriv c p) q)" using ThenI[of u' "deriv c p" v q] by simp
      then show ?thesis by simp
    qed
  qed
qed auto

lemma full_match_iff: "full_match p w \<longleftrightarrow> w \<in> lang p"
  by (induction w arbitrary: p) (simp_all add: nullable_iff deriv_iff)


lemma lang_class_plus:
  "lang (OneOrMore (NotOneOf as)) = {w. w \<noteq> [] \<and> (\<forall>c\<in>set w. \<not> list_ex (atom_matches c) as)}"
proof (intro set_eqI iffI)
  fix w assume "w \<in> lang (OneOrMore (NotOneOf as))"
  then obtain ws where ws: "w = concat ws" "ws \<noteq> []" "set ws \<subseteq> lang (NotOneOf as)" by auto
  from ws(3) have each: "\<forall>x\<in>set ws. \<exists>c. x = [c] \<and> \<not> list_ex (atom_matches c) as" by auto
  from ws(2) obtain x xs where "ws = x # xs" by (cases ws) auto
  with each ws(1) have "w \<noteq> []" by auto
  moreover from each ws(1) have "\<forall>c\<in>set w. \<not> list_ex (atom_matches c) as" by fastforce
  ultimately show "w \<in> {w. w \<noteq> [] \<and> (\<forall>c\<in>set w. \<not> list_ex (atom_matches c) as)}" by simp
next
  fix w assume "w \<in> {w. w \<noteq> [] \<and> (\<forall>c\<in>set w. \<not> list_ex (atom_matches c) as)}"
  then have w: "w \<noteq> []" "\<forall>c\<in>set w. \<not> list_ex (atom_matches c) as" by simp_all
  have "concat (map (\<lambda>c. [c]) w) = w" by (induction w) simp_all
  moreover have "map (\<lambda>c. [c]) w \<noteq> []" using w(1) by simp
  moreover have "set (map (\<lambda>c. [c]) w) \<subseteq> lang (NotOneOf as)" using w(2) by auto
  ultimately show "w \<in> lang (OneOrMore (NotOneOf as))"
    using OneOrMoreI[of "map (\<lambda>c. [c]) w" "NotOneOf as"] by simp
qed

lemma lang_Char_Then: "w \<in> lang (Then (Char c) q) \<longleftrightarrow> (\<exists>v. w = c # v \<and> v \<in> lang q)"
  by auto

lemma lang_Then: "w \<in> lang (Then p q) \<longleftrightarrow> (\<exists>u v. w = u @ v \<and> u \<in> lang p \<and> v \<in> lang q)"
  by auto

lemma lang_email_class:
  "w \<in> lang (OneOrMore (NotOneOf [WhiteSpaceEsc, ClassChar 0x40])) \<longleftrightarrow>
     w \<noteq> [] \<and> (\<forall>c\<in>set w. email_char c)"
  unfolding lang_class_plus by (simp add: email_char_def)

lemma validateEmail_split:
  "validateEmail e \<longleftrightarrow>
     (\<exists>l d t. e = l @ 0x40 # d @ 0x2E # t \<and> l \<noteq> [] \<and> d \<noteq> [] \<and> t \<noteq> [] \<and>
        (\<forall>c\<in>set l. email_char c) \<and> (\<forall>c\<in>set d. email_char c) \<and> (\<forall>c\<in>set t. email_char c))"
proof -
  let ?C = "OneOrMore (NotOneOf [WhiteSpaceEsc, ClassChar 0x40])"
  have tail: "\<And>v. v \<in> lang (Then ?C (Then (Char 0x2E) ?C)) \<longleftrightarrow>
      (\<exists>d t. v = d @ 0x2E # t \<and> d \<in> lang ?C \<and> t \<in> lang ?C)"
    unfolding lang_Then[of _ ?C] lang_Char_Then by blast
  have "validateEmail e \<longleftrightarrow>
      (\<exists>l v. e = l @ 0x40 # v \<and> l \<in> lang ?C \<and> v \<in> lang (Then ?C (Then (Char 0x2E) ?C)))"
    unfolding validateEmail_def full_match_iff email_pattern_def
    unfolding lang_Then[of _ ?C "Then (Char 0x40) _"] lang_Char_Then by blast
  also have "\<dots> \<longleftrightarrow> (\<exists>l d t. e = l @ 0x40 # d @ 0x2E # t \<and> l \<in> lang ?C \<and> d \<in> lang ?C \<and> t \<in> lang ?C)"
    unfolding tail by blast
  finally show ?thesis unfolding lang_email_class by blast
qed


lemma not_ws_at: "\<not> isWhiteSpace 0x40"
  by (simp add: isWhiteSpace_def)

lemma not_ws_dot: "\<not> isWhiteSpace 0x2E"
  by (simp add: isWhiteSpace_def)

lemma validateEmail_imp_shape:
  assumes "validateEmail e"
  shows "email_shape e"
proof -
  from assms obtain l d t where e: "e = l @ 0x40 # d @ 0x2E # t"
    and ne: "l \<noteq> []" "d \<noteq> []" "t \<noteq> []"
    and cl: "\<forall>c\<in>set l. email_char c" and cd: "\<forall>c\<in>set d. email_char c"
    and ct: "\<forall>c\<in>set t. email_char c"
    unfolding validateEmail_split by blast
  have noat: "0x40 \<notin> set l" "0x40 \<notin> set d" "0x40 \<notin> set t"
    using cl cd ct by (auto simp: email_char_def)
  have "count_list e 0x40 = 1"
    using noat by (simp add: e count_list_0_iff)
  moreover have "\<not> list_ex isWhiteSpace e"
    using cl cd ct not_ws_at not_ws_dot by (auto simp: e list_ex_iff email_char_def)
  moreover have lp: "local_part e = l"
    unfolding local_part_def e using noat(1) by (auto simp: takeWhile_tail)
  moreover have "domain_part e = d @ 0x2E # t"
  proof -
    have "dropWhile (\<lambda>c. c \<noteq> 0x40) l = []" using noat(1) by (auto simp: dropWhile_eq_Nil_conv)
    then show ?thesis unfolding domain_part_def e by (simp add: dropWhile_append)
  qed
  then have "butlast (tl (domain_part e)) = tl d @ 0x2E # butlast t"
    using ne by (simp add: butlast_append)
  ultimately show ?thesis using ne by (simp add: email_shape_def)
qed

lemma shape_imp_validateEmail:
  assumes "email_shape e"
  shows "validateEmail e"
proof -
  let ?l = "local_part e" and ?dom = "domain_part e"
  from assms have cnt: "count_list e 0x40 = 1" and ws: "\<forall>c\<in>set e. \<not> isWhiteSpace c"
    and lne: "?l \<noteq> []" and dot: "0x2E \<in> set (butlast (tl ?dom))"
    by (simp_all add: email_shape_def list_ex_iff)
  from cnt have "0x40 \<in> set e" using count_list_0_iff[of e "0x40"] by force
  then have dw: "dropWhile (\<lambda>c. c \<noteq> 0x40) e = 0x40 # ?dom"
    unfolding domain_part_def
    by (metis (mono_tags, lifting) dropWhile_eq_Nil_conv hd_dropWhile list.collapse)
  have e: "e = ?l @ 0x40 # ?dom"
    unfolding local_part_def using takeWhile_dropWhile_id[of "\<lambda>c. c \<noteq> 0x40" e] dw by simp
  have noat_l: "0x40 \<notin> set ?l"
    unfolding local_part_def by (auto dest: set_takeWhileD)
  have "count_list e 0x40 = count_list ?l 0x40 + 1 + count_list ?dom 0x40"
    by (subst e) simp
  with cnt have noat_d: "0x40 \<notin> set ?dom" by (simp add: count_list_0_iff)
  from dot obtain a b where ab: "butlast (tl ?dom) = a @ 0x2E # b"
    by (auto dest: split_list)
  then have tlne: "tl ?dom \<noteq> []" by auto
  then have domne: "?dom \<noteq> []" by auto
  have "tl ?dom = a @ 0x2E # (b @ [last (tl ?dom)])"
    using append_butlast_last_id[OF tlne] ab by simp
  then have dom: "?dom = (hd ?dom # a) @ 0x2E # (b @ [last (tl ?dom)])"
    using domne by (metis append_Cons list.collapse)
  let ?d = "hd ?dom # a" and ?t = "b @ [last (tl ?dom)]"
  have sub: "set ?l \<subseteq> set e" "set ?dom \<subseteq> set e"
    using e by (metis Un_upper1 set_append, metis e set_subset_Cons set_append Un_upper2 subset_trans)
  have "set ?dom = set ?d \<union> insert 0x2E (set ?t)"
    by (subst dom) (simp only: set_append set_simps)
  then have "set ?d \<subseteq> set ?dom" "set ?t \<subseteq> set ?dom"
    by blast+
  then have "\<forall>c\<in>set ?l. email_char c" "\<forall>c\<in>set ?d. email_char c" "\<forall>c\<in>set ?t. email_char c"
    using sub ws noat_l noat_d unfolding email_char_def by blast+
  moreover have "e = ?l @ 0x40 # ?d @ 0x2E # ?t"
    using e dom by simp
  moreover have "?d \<noteq> []" "?t \<noteq> []" by simp_all
  ultimately show ?thesis
    unfolding validateEmail_split using lne by blast
qed

lemma validateEmail_iff_shape: "validateEmail e \<longleftrightarrow> email_shape e"
  using validateEmail_imp_shape shape_imp_validateEmail by blast

section \<open>Facts about the collaborators and the guards\<close>

lemma err_eq_iff: "err c t = err c' t' \<longleftrightarrow> c = c' \<and> js t = js t'"
  by (simp add: err_def json_def)

lemma status_err: "status (err c t) = c"
  by (simp add: err_def json_def)

lemma status_json: "status (json c b) = c"
  by (simp add: json_def)

lemma Bearer_nonempty: "js ''Bearer '' \<noteq> []"
  by (simp add: js_def)

lemma replace_first_Nil: "pat \<noteq> [] \<Longrightarrow> replace_first pat rep [] = []"
  by simp

lemma db_getUser: "db (snd (getUser t w)) = db w"
  by (simp add: getUser_def)

lemma sessions_getUser: "sessions (idp (snd (getUser t w))) = sessions (idp w)"
  by (simp add: getUser_def)

lemma fst_getUser:
  "fst (getUser t w) = (case map_of (sessions (idp w)) t of None \<Rightarrow> Inl InvalidToken | Some u \<Rightarrow> Inr u)"
  by (simp add: getUser_def)

lemma db_stored: "db (stored calls s w) = s"
  by (simp add: stored_def)

lemma idp_stored: "idp (stored calls s w) = idp w"
  by (simp add: stored_def)

lemma store_calls_stored: "store_calls (stored calls s w) = store_calls w @ calls"
  by (simp add: stored_def)

lemma store_calls_getUser: "store_calls (snd (getUser t w)) = store_calls w"
  by (simp add: getUser_def)

lemma db_asked: "db (asked req w) = db w"
  by (simp add: asked_def db_getUser split: option.splits)

lemma sessions_asked: "sessions (idp (asked req w)) = sessions (idp w)"
  by (simp add: asked_def sessions_getUser split: option.splits)

lemma store_calls_asked: "store_calls (asked req w) = store_calls w"
  by (simp add: asked_def store_calls_getUser split: option.splits)

lemma resolve_sessions:
  "sessions (idp w') = sessions (idp w) \<Longrightarrow> resolve req w' = resolve req w"
  by (cases "bearer req") (simp_all add: resolve_def)

lemma resolve_cases:
  assumes "resolve req w = Some u"
  obtains hdr where "authorization req = Some hdr" "hdr \<noteq> []"
    "replace_first (js ''Bearer '') [] hdr \<noteq> []"
    "map_of (sessions (idp w)) (replace_first (js ''Bearer '') [] hdr) = Some u"
proof -
  from assms obtain hdr where h: "authorization req = Some hdr"
    by (cases "authorization req") (simp_all add: resolve_def bearer_def)
  with assms have t: "replace_first (js ''Bearer '') [] hdr \<noteq> []"
    "map_of (sessions (idp w)) (replace_first (js ''Bearer '') [] hdr) = Some u"
    by (simp_all add: resolve_def bearer_def split: if_splits)
  from t(1) have "hdr \<noteq> []" using Bearer_nonempty by auto
  with h t show thesis using that by blast
qed

lemma getUser_resolved:
  assumes "authorization req = Some hdr"
    "map_of (sessions (idp w)) (replace_first (js ''Bearer '') [] hdr) = Some u"
  shows "getUser (replace_first (js ''Bearer '') [] hdr) w = (Inr u, asked req w)"
  using assms by (simp add: getUser_def asked_def bearer_def)

lemma verificarAutenticacao_resolved:
  assumes "resolve req w = Some u"
  shows "verificarAutenticacao req w = (Inr (req\<lparr>user := Some u\<rparr>), asked req w)"
proof -
  from assms obtain hdr where h: "authorization req = Some hdr" "hdr \<noteq> []"
    "map_of (sessions (idp w)) (replace_first (js ''Bearer '') [] hdr) = Some u"
    by (rule resolve_cases)
  show ?thesis
    by (simp add: verificarAutenticacao_def h(1,2) getUser_resolved[OF h(1,3)])
qed

lemma guarded_verificarAutenticacao_resolved:
  assumes "resolve req w = Some u"
  shows "guarded verificarAutenticacao h req w = h (req\<lparr>user := Some u\<rparr>) (asked req w)"
  by (simp add: guarded_def verificarAutenticacao_resolved[OF assms])

lemma filter_key_unique:
  assumes "distinct (map f xs)" "x \<in> set xs"
  shows "filter (\<lambda>y. f y = f x) xs = [x]"
  using assms
proof (induction xs)
  case Nil
  then show ?case by simp
next
  case (Cons a xs)
  show ?case
  proof (cases "a = x")
    case True
    with Cons.prems have "f x \<notin> f ` set xs" by simp
    then have "\<forall>y\<in>set xs. f y \<noteq> f x" by (metis imageI)
    then have "filter (\<lambda>y. f y = f x) xs = []" by (simp add: filter_empty_conv)
    with True show ?thesis by simp
  next
    case False
    with Cons.prems have "x \<in> set xs" "f a \<noteq> f x" "distinct (map f xs)" by auto
    with Cons.IH show ?thesis by simp
  qed
qed

lemma find_key_unique:
  assumes "distinct (map f xs)" "x \<in> set xs"
  shows "find (\<lambda>y. f y = f x) xs = Some x"
  using assms
proof (induction xs)
  case Nil
  then show ?case by simp
next
  case (Cons a xs)
  then show ?case by (cases "a = x") auto
qed

lemma single_key_unique:
  assumes "distinct (map f xs)" "x \<in> set xs" "f x = k"
  shows "single (filter (\<lambda>y. f y = k) xs) = Inr x"
  using filter_key_unique[OF assms(1,2)] assms(3) by (auto simp: single_def)

lemma single_key_absent:
  assumes "\<not> list_ex (\<lambda>y. f y = k) xs"
  shows "single (filter (\<lambda>y. f y = k) xs) = Inl PGRST116"
proof -
  from assms have "filter (\<lambda>y. f y = k) xs = []"
    by (simp add: filter_empty_conv list_ex_iff)
  then show ?thesis by (simp add: single_def)
qed

section \<open>The admin guard\<close>

lemma verificarAdmin_flag:
  assumes "resolve req w = Some u" "distinct (map u_id (users (db w)))"
    "r \<in> set (users (db w))" "u_id r = au_id u"
  shows "verificarAdmin req w =
           (if u_is_admin r then Inr (req\<lparr>user := Some u\<rparr>)
            else Inl (err 403 ''Acesso negado. Apenas administradores.''), asked req w)"
proof -
  from assms(1) obtain hdr where h: "authorization req = Some hdr" "hdr \<noteq> []"
    "map_of (sessions (idp w)) (replace_first (js ''Bearer '') [] hdr) = Some u"
    by (rule resolve_cases)
  have "single (filter (\<lambda>x. u_id x = au_id u) (users (db (asked req w)))) = Inr r"
    using single_key_unique[OF assms(2,3,4)] by (simp add: db_asked)
  then show ?thesis
    by (simp add: verificarAdmin_def h(1,2) getUser_resolved[OF h(1,3)])
qed

lemma verificarAdmin_node_flag:
  assumes "resolve req w = Some u" "distinct (map u_id (users (db w)))"
    "r \<in> set (users (db w))" "u_id r = au_id u"
  shows "verificarAdmin_node req w =
           (if u_is_admin r then Inr (req\<lparr>user := Some u\<rparr>)
            else Inl (err 403 ''Acesso negado. Apenas administradores.''), asked req w)"
proof -
  from assms(1) obtain hdr where h: "authorization req = Some hdr" "hdr \<noteq> []"
    "replace_first (js ''Bearer '') [] hdr \<noteq> []"
    "map_of (sessions (idp w)) (replace_first (js ''Bearer '') [] hdr) = Some u"
    by (rule resolve_cases)
  have "single (filter (\<lambda>x. u_id x = au_id u) (users (db (asked req w)))) = Inr r"
    using single_key_unique[OF assms(2,3,4)] by (simp add: db_asked)
  then show ?thesis
    by (simp add: verificarAdmin_node_def bearer_def h(1,3) getUser_resolved[OF h(1,4)])
qed

lemma admin_handler_ignores_user:
  assumes "admin_handler rt = Some h"
  shows "h (req\<lparr>user := x\<rparr>) w = h req w"
  using assms
  by (cases rt)
     (auto simp: admin_usuarios_handler_def admin_post_estabelecimento_handler_def
        admin_post_jammer_handler_def admin_estabelecimentos_handler_def
        admin_jammers_handler_def admin_delete_estabelecimento_handler_def
        admin_delete_jammer_handler_def Let_def
      split: option.splits sum.splits prod.splits)

lemma admin_routes:
  assumes "admin_handler rt = Some h"
  shows "serve rt = guarded verificarAdmin h" "serve_node rt = guarded verificarAdmin_node h"
  using assms by (cases rt; auto)+







section \<open>The e-mail check and the password length\<close>

lemma signup_invalid_email_iff:
  assumes "body_email req = Some e" "e \<noteq> []" "body_password req = Some p" "truthy p"
  shows "fst (signup req w) = err 400 ''E-mail invalido.'' \<longleftrightarrow> \<not> validateEmail e"
  using assms
  by (auto simp: signup_def err_def json_def js_def split: sum.splits option.splits prod.splits)

lemma forgot_invalid_email_iff:
  assumes "body_email req = Some e" "e \<noteq> []"
  shows "fst (forgot_password req w) = err 400 ''E-mail invalido.'' \<longleftrightarrow> \<not> validateEmail e"
  using assms
  by (auto simp: forgot_password_def err_def json_def js_def)

text \<open>
  C6, as the code has it. \<open>validateEmail\<close> accepts a string iff it holds exactly one
  \<open>@\<close> and no whitespace at all, the text before the \<open>@\<close> is not empty, and the text
  after the \<open>@\<close> has a full stop that is neither its first nor its last character.
  Sign-up and forgot-password apply this same function: once the fields they require
  are present, each answers 400 \<open>E-mail invalido.\<close> exactly when \<open>validateEmail\<close>
  rejects the e-mail.
\<close>

theorem validateEmail_accepts_exactly:
  "(validateEmail e \<longleftrightarrow> email_shape e) \<and>
   (body_email req = Some e \<and> e \<noteq> [] \<and> body_password req = Some p \<and> truthy p \<longrightarrow>
      (fst (signup req w) = err 400 ''E-mail invalido.'' \<longleftrightarrow> \<not> validateEmail e)) \<and>
   (body_email req = Some e \<and> e \<noteq> [] \<longrightarrow>
      (fst (forgot_password req w) = err 400 ''E-mail invalido.'' \<longleftrightarrow> \<not> validateEmail e))"
  using validateEmail_iff_shape signup_invalid_email_iff forgot_invalid_email_iff by blast

text \<open>The accepted address \<open>a@b.co\<close> at both entry points.\<close>

theorem validateEmail_accepts_exactly_witness:
  "validateEmail (js ''a@b.co'') \<and> email_shape (js ''a@b.co'') \<and>
   fst (signup (blank_request\<lparr>body_email := Some (js ''a@b.co''),
                               body_password := Some (Str (js ''secret''))\<rparr>) example_world)
     \<noteq> err 400 ''E-mail invalido.'' \<and>
   fst (forgot_password (blank_request\<lparr>body_email := Some (js ''a@b.co''),
                                        body_password := Some (Str (js ''secret''))\<rparr>) example_world)
     \<noteq> err 400 ''E-mail invalido.''"
proof -
  have v: "validateEmail (js ''a@b.co'')"
    by (simp add: validateEmail_def email_pattern_def js_def isWhiteSpace_def)
  have ne: "js ''a@b.co'' \<noteq> []" "truthy (Str (js ''secret''))"
    by (simp_all add: js_def)
  show ?thesis
    using validateEmail_accepts_exactly[where e = "js ''a@b.co''" and p = "Str (js ''secret'')"
        and req = "blank_request\<lparr>body_email := Some (js ''a@b.co''),
                                  body_password := Some (Str (js ''secret''))\<rparr>"
        and w = example_world] v ne
    by simp
qed

text \<open>
  The contract as the specification words it is wider than the pattern: \<open>a@.b\<close> has one
  \<open>@\<close>, a non-whitespace character on each side of it and a full stop after it, and is
  rejected.
\<close>

theorem validateEmail_contract_counterexample:
  "spec_email_contract (js ''a@.b'') \<and> \<not> validateEmail (js ''a@.b'')"
  by (simp add: spec_email_contract_def local_part_def domain_part_def validateEmail_def
        email_pattern_def js_def isWhiteSpace_def)





text \<open>
  The length that is tested is the number of UTF-16 code units of a string. A password
  of three characters outside the basic plane has six code units, and a password that
  is the number 12345 has no \<open>length\<close>: the test lets both through, and the sign-up
  creates the account and the \<open>users\<close> row.
\<close>

lemma signup_astral_password_example:
  "fst (signup (blank_request\<lparr>body_email := Some (js ''new@x.io''),
          body_password := Some (Str [0xD83D, 0xDE00, 0xD83D, 0xDE00, 0xD83D, 0xDE00])\<rparr>)
        example_world) =
     json 201 (SignupBody (js ''Usuario cadastrado com sucesso.'') (js ''u3''))"
  by (simp add: signup_def validateEmail_def email_pattern_def isWhiteSpace_def js_def
        blank_request_def example_world_def example_store_def example_idp_def loja_def
        maybeSingle_def signUp_def insert_users_def)

lemma signup_number_password_example:
  "fst (signup (blank_request\<lparr>body_email := Some (js ''new@x.io''),
          body_password := Some (NotStr True False)\<rparr>) example_world) =
     json 201 (SignupBody (js ''Usuario cadastrado com sucesso.'') (js ''u3'')) \<and>
   accounts (idp (snd (signup (blank_request\<lparr>body_email := Some (js ''new@x.io''),
          body_password := Some (NotStr True False)\<rparr>) example_world))) =
     accounts (idp example_world) @
       [\<lparr>acc_id = js ''u3'', acc_email = js ''new@x.io'', acc_password = NotStr True False\<rparr>]"
  by (simp add: signup_def validateEmail_def email_pattern_def isWhiteSpace_def js_def
        blank_request_def example_world_def example_store_def example_idp_def loja_def
        maybeSingle_def signUp_def insert_users_def stored_def)

text \<open>
  The reset route passes \<open>setSession\<close> the access token alone, so the call installs no
  session: with no session in the shared client, a reset that passes the checks is
  answered 400 \<open>Erro ao atualizar senha.\<close> and changes nothing.
\<close>

lemma reset_password_without_session:
  assumes "body_access_token req = Some t" "t \<noteq> []" "body_new_password req = Some p"
    "truthy p" "\<not> length_lt_6 p" "client_session (idp w) = None"
  shows "reset_password req w = (err 400 ''Erro ao atualizar senha.'', w)"
  using assms by (simp add: reset_password_def setSession_def updateUser_def)




section \<open>Requests without a token\<close>

lemma no_header_verificarAutenticacao:
  "authorization req = None \<Longrightarrow>
     guarded verificarAutenticacao h req w = (err 401 ''Token nao fornecido.'', w)"
  by (simp add: guarded_def verificarAutenticacao_def)

lemma no_header_verificarAdmin:
  "authorization req = None \<Longrightarrow>
     guarded verificarAdmin h req w = (err 401 ''Token nao fornecido.'', w)"
  by (simp add: guarded_def verificarAdmin_def)

lemma no_header_verificarAdmin_node:
  "authorization req = None \<Longrightarrow>
     guarded verificarAdmin_node h req w = (err 401 ''Token nao fornecido.'', w)"
  by (simp add: guarded_def verificarAdmin_node_def bearer_def)

lemma no_header_serve:
  assumes "authorization req = None" "protected r"
  shows "serve r req w = (err 401 ''Token nao fornecido.'', w)"
  using assms
  by (cases r) (simp_all add: no_header_verificarAutenticacao no_header_verificarAdmin)

lemma no_header_serve_node:
  assumes "authorization req = None" "protected_node r"
    "r = PATCH_jammer \<longrightarrow> body_estado_jammer req \<noteq> None"
  shows "serve_node r req w = (err 401 ''Token nao fornecido.'', w)"
  using assms
  by (cases r)
     (auto simp: no_header_verificarAdmin_node verify_session_node_def
        user_estabelecimentos_node_def patch_jammer_node_def bearer_def)

lemma no_body_patch_jammer_node:
  "body_estado_jammer req = None \<Longrightarrow>
     serve_node PATCH_jammer req w = (err 400 ''estado_jammer e obrigatorio.'', w)"
  by (simp add: patch_jammer_node_def)

text \<open>
  A header that carries the scheme and an empty token, \<open>Bearer \<close> followed by
  nothing: \<open>API_node.js\<close> answers without asking the identity provider, the
  middleware of the other file asks it about the empty token.
\<close>

lemma empty_token_node:
  "authorization req = Some (js ''Bearer '') \<Longrightarrow>
     serve_node GET_verify_session req w = (err 401 ''Token nao fornecido.'', w)"
  by (simp add: verify_session_node_def bearer_def js_def)

lemma empty_token_middleware:
  "authorization req = Some (js ''Bearer '') \<Longrightarrow>
     getUser_calls (idp (snd (verificarAutenticacao req w))) = getUser_calls (idp w) @ [[]]"
  by (simp add: verificarAutenticacao_def getUser_def js_def split: option.splits)

text \<open>
  C5, as the code has it. A request without an \<open>Authorization\<close> header to a route that
  resolves the caller is answered 401 \<open>Token nao fornecido.\<close> and the world it leaves
  is the world it found: the log of \<open>getUser\<close> calls has not grown and no table has
  changed. This holds for every such route of the file with the middleware, and for
  every such route of \<open>API_node.js\<close> with one exception: its \<open>PATCH /jammer/:jammerId\<close>
  looks at the body first, and answers a request that also lacks \<open>estado_jammer\<close> with
  400, again without touching the world.
\<close>

theorem no_header_unauthenticated:
  "authorization req = None \<longrightarrow>
     (protected r \<longrightarrow> serve r req w = (err 401 ''Token nao fornecido.'', w)) \<and>
     (protected_node r \<and> (r = PATCH_jammer \<longrightarrow> body_estado_jammer req \<noteq> None) \<longrightarrow>
        serve_node r req w = (err 401 ''Token nao fornecido.'', w)) \<and>
     (body_estado_jammer req = None \<longrightarrow>
        serve_node PATCH_jammer req w = (err 400 ''estado_jammer e obrigatorio.'', w))"
  using no_header_serve no_header_serve_node no_body_patch_jammer_node by blast

text \<open>A jammer update without a header, on both route tables.\<close>

theorem no_header_unauthenticated_witness:
  "serve PATCH_jammer (blank_request\<lparr>param_jammerId := 42, body_estado_jammer := Some True\<rparr>)
     example_world = (err 401 ''Token nao fornecido.'', example_world) \<and>
   serve_node PATCH_jammer (blank_request\<lparr>param_jammerId := 42, body_estado_jammer := Some True\<rparr>)
     example_world = (err 401 ''Token nao fornecido.'', example_world) \<and>
   serve_node PATCH_jammer (blank_request\<lparr>param_jammerId := 42\<rparr>)
     example_world = (err 400 ''estado_jammer e obrigatorio.'', example_world)"
proof -
  have a: "authorization (blank_request\<lparr>param_jammerId := 42, body_estado_jammer := Some True\<rparr>) = None"
    "body_estado_jammer (blank_request\<lparr>param_jammerId := 42, body_estado_jammer := Some True\<rparr>) \<noteq> None"
    "authorization (blank_request\<lparr>param_jammerId := 42\<rparr>) = None"
    "body_estado_jammer (blank_request\<lparr>param_jammerId := 42\<rparr>) = None"
    by (simp_all add: blank_request_def)
  show ?thesis
    using no_header_unauthenticated[where r = PATCH_jammer and w = example_world
        and req = "blank_request\<lparr>param_jammerId := 42, body_estado_jammer := Some True\<rparr>"]
      no_header_unauthenticated[where r = PATCH_jammer and w = example_world
        and req = "blank_request\<lparr>param_jammerId := 42\<rparr>"]
      a
    by simp
qed

text \<open>
  The claim as worded fails on \<open>API_node.js\<close>: \<open>PATCH /jammer/42\<close> with neither header
  nor \<open>estado_jammer\<close> is answered 400, not 401.
\<close>

theorem no_header_unauthenticated_counterexample:
  "authorization (blank_request\<lparr>param_jammerId := 42\<rparr>) = None \<and>
   protected_node PATCH_jammer \<and>
   status (fst (serve_node PATCH_jammer (blank_request\<lparr>param_jammerId := 42\<rparr>) example_world)) = 400"
  by (simp add: patch_jammer_node_def blank_request_def status_err)

section \<open>Self-path routes and the jammers of an establishment\<close>

lemma user_estabelecimentos_forbidden:
  assumes "resolve req w = Some u" "au_id u \<noteq> param_userId req"
  shows "serve GET_user_estabelecimentos req w =
           (err 403 ''Voce nao tem permissao para acessar estes dados.'', asked req w)"
  using assms
  by (simp add: guarded_verificarAutenticacao_resolved user_estabelecimentos_handler_def)

lemma user_estabelecimentos_completo_forbidden:
  assumes "resolve req w = Some u" "au_id u \<noteq> param_userId req"
  shows "serve GET_user_estabelecimentos_completo req w =
           (err 403 ''Voce nao tem permissao para acessar estes dados.'', asked req w)"
  using assms
  by (simp add: guarded_verificarAutenticacao_resolved user_estabelecimentos_completo_handler_def)

lemma user_estabelecimentos_node_forbidden:
  assumes "resolve req w = Some u" "au_id u \<noteq> param_userId req"
  shows "serve_node GET_user_estabelecimentos req w =
           (err 403 ''Voce nao tem permissao para acessar estes dados.'', asked req w)"
proof -
  from assms(1) obtain hdr where h: "authorization req = Some hdr"
    "replace_first (js ''Bearer '') [] hdr \<noteq> []"
    "map_of (sessions (idp w)) (replace_first (js ''Bearer '') [] hdr) = Some u"
    by (rule resolve_cases)
  show ?thesis
    using assms(2)
    by (simp add: user_estabelecimentos_node_def bearer_def h(1,2) getUser_resolved[OF h(1,3)])
qed

text \<open>
  C1 holds on three of the four self-path routes (the two lemmas above for the file
  with the middleware, the third for \<open>/user/:userId/estabelecimentos\<close> of
  \<open>API_node.js\<close>). The fourth, \<open>/user/:userId/estabelecimentos-completo\<close> of
  \<open>API_node.js\<close>, answers the principal \<open>u1\<close> asking for \<open>u2\<close> with status 200 and the
  establishment and jammers of \<open>u2\<close>.
\<close>

theorem completo_node_serves_other_user:
  "resolve ((with_token ''t1'')\<lparr>param_userId := js ''u2''\<rparr>) example_world = Some ana \<and>
   au_id ana \<noteq> js ''u2'' \<and>
   serve_node GET_user_estabelecimentos_completo ((with_token ''t1'')\<lparr>param_userId := js ''u2''\<rparr>)
     example_world =
     (json 200 (CompletoBody
        [\<lparr>ec_row = loja,
          ec_jammers = [\<lparr>j_id = 41, j_id_estabelecimento = 7, j_estado_jammer = False\<rparr>,
                        \<lparr>j_id = 42, j_id_estabelecimento = 7, j_estado_jammer = False\<rparr>],
          ec_total_jammers = 2\<rparr>] 1 2),
      example_world)"
  by (simp add: resolve_def bearer_def with_token_def blank_request_def example_world_def
        example_idp_def example_store_def ana_def loja_def js_def
        user_estabelecimentos_completo_node_def numeral_2_eq_2[symmetric])

lemma estabelecimento_jammers_not_found:
  assumes "resolve req w = Some u"
    "\<not> list_ex (\<lambda>e. e_id e = param_estabelecimentoId req) (estabelecimento (db w))"
  shows "serve GET_estabelecimento_jammers req w =
           (err 404 ''Estabelecimento nao encontrado.'', asked req w)"
  using assms(2)
  by (simp add: guarded_verificarAutenticacao_resolved[OF assms(1)]
        estabelecimento_jammers_handler_def db_asked single_key_absent)

lemma estabelecimento_jammers_owner:
  assumes "resolve req w = Some u" "wf_store (db w)"
    "e \<in> set (estabelecimento (db w))" "e_id e = param_estabelecimentoId req"
  shows "serve GET_estabelecimento_jammers req w =
           (if e_user_id e \<noteq> au_id u
            then err 403 ''Voce nao tem permissao para acessar estes dados.''
            else json 200 (JammersBody
                   (sort_key j_id (filter (\<lambda>j. j_id_estabelecimento j = e_id e) (jammers (db w))))
                   (length (filter (\<lambda>j. j_id_estabelecimento j = e_id e) (jammers (db w))))),
            asked req w)"
proof -
  from assms(2) have "distinct (map e_id (estabelecimento (db w)))" by (simp add: wf_store_def)
  from single_key_unique[OF this assms(3,4)]
  show ?thesis
    by (simp add: guarded_verificarAutenticacao_resolved[OF assms(1)]
          estabelecimento_jammers_handler_def db_asked assms(4))
qed

text \<open>
  C2 holds on the file with the middleware (the two lemmas above).
  \<open>GET /estabelecimento/:estabelecimentoId/jammers\<close> of \<open>API_node.js\<close> looks up no
  owner: it gives \<open>u1\<close> the jammers of establishment 7, which belongs to \<open>u2\<close>, and
  answers 200 with an empty list for the establishment 99, which does not exist.
\<close>

theorem jammers_node_serves_any_caller:
  "resolve ((with_token ''t1'')\<lparr>param_estabelecimentoId := 7\<rparr>) example_world = Some ana \<and>
   e_user_id loja \<noteq> au_id ana \<and>
   serve_node GET_estabelecimento_jammers ((with_token ''t1'')\<lparr>param_estabelecimentoId := 7\<rparr>)
     example_world =
     (json 200 (JammersBody
        [\<lparr>j_id = 41, j_id_estabelecimento = 7, j_estado_jammer = False\<rparr>,
         \<lparr>j_id = 42, j_id_estabelecimento = 7, j_estado_jammer = False\<rparr>] 2),
      example_world) \<and>
   serve_node GET_estabelecimento_jammers ((with_token ''t1'')\<lparr>param_estabelecimentoId := 99\<rparr>)
     example_world = (json 200 (JammersBody [] 0), example_world)"
  by (simp add: resolve_def bearer_def with_token_def blank_request_def example_world_def
        example_idp_def example_store_def ana_def loja_def js_def
        estabelecimento_jammers_node_def Let_def numeral_2_eq_2[symmetric])

section \<open>Updating a jammer\<close>

text \<open>
  With a resolved principal and \<open>estado_jammer\<close> in the body, the route of
  \<open>API_node.js\<close> and the route of the file with the middleware give the same result.
\<close>

lemma patch_jammer_node_eq:
  assumes "resolve req w = Some u" "body_estado_jammer req = Some v"
  shows "serve_node PATCH_jammer req w = serve PATCH_jammer req w"
proof -
  from assms(1) obtain hdr where h: "authorization req = Some hdr"
    "replace_first (js ''Bearer '') [] hdr \<noteq> []"
    "map_of (sessions (idp w)) (replace_first (js ''Bearer '') [] hdr) = Some u"
    by (rule resolve_cases)
  show ?thesis
    by (simp add: guarded_verificarAutenticacao_resolved[OF assms(1)] patch_jammer_node_def
          patch_jammer_handler_def bearer_def h(1,2) getUser_resolved[OF h(1,3)] assms(2)
        split: sum.splits option.splits prod.splits)
qed

text \<open>
  A body without \<open>estado_jammer\<close> is answered 400 before the jammer is looked up; the
  file with the middleware has resolved the token by then, \<open>API_node.js\<close> has not.
\<close>

lemma patch_jammer_no_estado:
  assumes "resolve req w = Some u" "body_estado_jammer req = None"
  shows "serve PATCH_jammer req w = (err 400 ''estado_jammer e obrigatorio.'', asked req w)"
    and "serve_node PATCH_jammer req w = (err 400 ''estado_jammer e obrigatorio.'', w)"
  using assms(2)
  by (simp_all add: guarded_verificarAutenticacao_resolved[OF assms(1)] patch_jammer_handler_def
        patch_jammer_node_def)

lemma patch_jammer_not_found:
  assumes "resolve req w = Some u" "body_estado_jammer req = Some v"
    "\<not> list_ex (\<lambda>j. j_id j = param_jammerId req) (jammers (db w))"
  shows "serve PATCH_jammer req w = (err 404 ''Jammer nao encontrado.'', asked req w)"
  using assms(2,3)
  by (simp add: guarded_verificarAutenticacao_resolved[OF assms(1)] patch_jammer_handler_def
        db_asked single_key_absent)

lemma patch_jammer_forbidden:
  assumes "resolve req w = Some u" "body_estado_jammer req = Some v"
    "distinct (map j_id (jammers (db w)))" "distinct (map e_id (estabelecimento (db w)))"
    "j \<in> set (jammers (db w))" "j_id j = param_jammerId req"
    "e \<in> set (estabelecimento (db w))" "e_id e = j_id_estabelecimento j"
    "e_user_id e \<noteq> au_id u"
  shows "serve PATCH_jammer req w =
           (err 403 ''Voce nao tem permissao para alterar este jammer.'', asked req w)"
proof -
  have s: "single (filter (\<lambda>x. j_id x = param_jammerId req) (jammers (db w))) = Inr j"
    by (rule single_key_unique[OF assms(3,5,6)])
  have f: "embed_estabelecimento (db w) j = Some e"
    using find_key_unique[OF assms(4,7)] assms(8) by (simp add: embed_estabelecimento_def)
  show ?thesis
    using assms(2,9)
    by (simp add: guarded_verificarAutenticacao_resolved[OF assms(1)] patch_jammer_handler_def
          db_asked s f)
qed

lemma map_j_id_set_estado: "map j_id (set_estado k v rows) = map j_id rows"
  by (induction rows) (simp_all add: set_estado_def)

lemma set_estado_twice: "set_estado k v (set_estado k v rows) = set_estado k v rows"
  by (induction rows) (simp_all add: set_estado_def)

lemma set_estado_member:
  "j \<in> set rows \<Longrightarrow> j_id j = k \<Longrightarrow> j\<lparr>j_estado_jammer := v\<rparr> \<in> set (set_estado k v rows)"
  by (force simp: set_estado_def)

lemma patch_jammer_owner:
  assumes "resolve req w = Some u" "body_estado_jammer req = Some v"
    "distinct (map j_id (jammers (db w)))" "distinct (map e_id (estabelecimento (db w)))"
    "j \<in> set (jammers (db w))" "j_id j = param_jammerId req"
    "e \<in> set (estabelecimento (db w))" "e_id e = j_id_estabelecimento j"
    "e_user_id e = au_id u"
  shows "serve PATCH_jammer req w =
           (json 200 (JammerBody (js ''Jammer atualizado com sucesso.'') (j\<lparr>j_estado_jammer := v\<rparr>)),
            stored [UpdateJammers (param_jammerId req) v]
              ((db w)\<lparr>jammers := set_estado (param_jammerId req) v (jammers (db w))\<rparr>)
              (asked req w))"
proof -
  let ?k = "param_jammerId req"
  have s: "single (filter (\<lambda>x. j_id x = ?k) (jammers (db w))) = Inr j"
    by (rule single_key_unique[OF assms(3,5,6)])
  have f: "embed_estabelecimento (db w) j = Some e"
    using find_key_unique[OF assms(4,7)] assms(8) by (simp add: embed_estabelecimento_def)
  have d: "distinct (map j_id (set_estado ?k v (jammers (db w))))"
    using assms(3) by (simp add: map_j_id_set_estado)
  have "single (filter (\<lambda>x. j_id x = ?k) (set_estado ?k v (jammers (db w))))
          = Inr (j\<lparr>j_estado_jammer := v\<rparr>)"
    using single_key_unique[OF d set_estado_member[OF assms(5,6)], of ?k] assms(6) by simp
  then have up: "update_estado_jammer ?k v (db w) =
      (Inr (j\<lparr>j_estado_jammer := v\<rparr>), (db w)\<lparr>jammers := set_estado ?k v (jammers (db w))\<rparr>)"
    by (simp add: update_estado_jammer_def)
  show ?thesis
    using assms(2,9)
    by (simp add: guarded_verificarAutenticacao_resolved[OF assms(1)] patch_jammer_handler_def
          db_asked s f up)
qed

lemmas example_defs =
  resolve_def bearer_def with_token_def blank_request_def example_world_def example_idp_def
  example_store_def ana_def bia_def root_def eva_def loja_def js_def

lemma wf_example_world: "wf_store (db example_world)"
  by (simp add: wf_store_def example_world_def example_store_def loja_def js_def)

text \<open>
  C3, as the code has it. For every \<open>PATCH /jammer/:jammerId\<close> whose token resolves
  and whose body carries \<open>estado_jammer\<close>, in both source files: when no jammer has the
  id, the answer is 404 (NotFound), whoever the principal is and whatever any
  establishment's owner is, so it is decided before any comparison of owners; when the
  jammer exists and the owner of its parent establishment is not the principal, the
  answer is 403 (Forbidden) and the store is the one before the request.
\<close>

theorem patch_jammer_not_found_before_forbidden:
  assumes "resolve req w = Some u" "body_estado_jammer req = Some v"
  shows "(\<not> list_ex (\<lambda>j. j_id j = param_jammerId req) (jammers (db w)) \<longrightarrow>
            serve PATCH_jammer req w = (err 404 ''Jammer nao encontrado.'', asked req w) \<and>
            serve_node PATCH_jammer req w = (err 404 ''Jammer nao encontrado.'', asked req w)) \<and>
         (wf_store (db w) \<and> j \<in> set (jammers (db w)) \<and> j_id j = param_jammerId req \<and>
          e \<in> set (estabelecimento (db w)) \<and> e_id e = j_id_estabelecimento j \<and>
          e_user_id e \<noteq> au_id u \<longrightarrow>
            serve PATCH_jammer req w =
              (err 403 ''Voce nao tem permissao para alterar este jammer.'', asked req w) \<and>
            serve_node PATCH_jammer req w =
              (err 403 ''Voce nao tem permissao para alterar este jammer.'', asked req w) \<and>
            db (asked req w) = db w)"
  using patch_jammer_not_found[OF assms] patch_jammer_forbidden[OF assms, of j e]
    patch_jammer_node_eq[OF assms]
  by (simp add: wf_store_def db_asked)

text \<open>\<open>u1\<close> updating the jammer 99, which does not exist, and the jammer 42 of \<open>u2\<close>.\<close>

theorem patch_jammer_not_found_before_forbidden_witness:
  "serve PATCH_jammer ((with_token ''t1'')\<lparr>param_jammerId := 99, body_estado_jammer := Some True\<rparr>)
     example_world =
     (err 404 ''Jammer nao encontrado.'',
      asked ((with_token ''t1'')\<lparr>param_jammerId := 99, body_estado_jammer := Some True\<rparr>)
        example_world) \<and>
   serve_node PATCH_jammer ((with_token ''t1'')\<lparr>param_jammerId := 42, body_estado_jammer := Some True\<rparr>)
     example_world =
     (err 403 ''Voce nao tem permissao para alterar este jammer.'',
      asked ((with_token ''t1'')\<lparr>param_jammerId := 42, body_estado_jammer := Some True\<rparr>)
        example_world)"
proof -
  let ?r99 = "(with_token ''t1'')\<lparr>param_jammerId := 99, body_estado_jammer := Some True\<rparr>"
  let ?r42 = "(with_token ''t1'')\<lparr>param_jammerId := 42, body_estado_jammer := Some True\<rparr>"
  let ?j = "\<lparr>j_id = 42, j_id_estabelecimento = 7, j_estado_jammer = False\<rparr>"
  have r: "resolve ?r99 example_world = Some ana" "resolve ?r42 example_world = Some ana"
    by (simp_all add: example_defs)
  have b: "body_estado_jammer ?r99 = Some True" "body_estado_jammer ?r42 = Some True"
    by (simp_all add: with_token_def)
  have a: "\<not> list_ex (\<lambda>j. j_id j = param_jammerId ?r99) (jammers (db example_world))"
    by (simp add: example_world_def example_store_def with_token_def)
  have m: "?j \<in> set (jammers (db example_world))" "j_id ?j = param_jammerId ?r42"
    "loja \<in> set (estabelecimento (db example_world))" "e_id loja = j_id_estabelecimento ?j"
    "e_user_id loja \<noteq> au_id ana"
    by (simp_all add: example_world_def example_store_def with_token_def loja_def ana_def js_def)
  show ?thesis
    using patch_jammer_not_found_before_forbidden[OF r(1) b(1)]
      patch_jammer_not_found_before_forbidden[OF r(2) b(2), of ?j loja] a m wf_example_world
    by simp
qed

text \<open>
  The claim as worded fails for a body without \<open>estado_jammer\<close>: \<open>u1\<close>, authenticated,
  updating the jammer 99, which does not exist, is answered 400, not 404.
\<close>

theorem patch_jammer_not_found_counterexample:
  "resolve ((with_token ''t1'')\<lparr>param_jammerId := 99\<rparr>) example_world = Some ana \<and>
   \<not> list_ex (\<lambda>j. j_id j = 99) (jammers (db example_world)) \<and>
   fst (serve PATCH_jammer ((with_token ''t1'')\<lparr>param_jammerId := 99\<rparr>) example_world) =
     err 400 ''estado_jammer e obrigatorio.'' \<and>
   fst (serve_node PATCH_jammer ((with_token ''t1'')\<lparr>param_jammerId := 99\<rparr>) example_world) =
     err 400 ''estado_jammer e obrigatorio.''"
  by (simp add: example_defs guarded_def verificarAutenticacao_def getUser_def
        patch_jammer_handler_def patch_jammer_node_def)

text \<open>
  C9. For a jammer that the caller owns and any state value, in both source files:
  the update answers 200 with the jammer in that state; the same request sent again
  is answered the same, and leaves the store that the first one left.
\<close>

theorem patch_jammer_idempotent:
  assumes "resolve req w = Some u" "wf_store (db w)" "body_estado_jammer req = Some v"
    "j \<in> set (jammers (db w))" "j_id j = param_jammerId req"
    "e \<in> set (estabelecimento (db w))" "e_id e = j_id_estabelecimento j"
    "e_user_id e = au_id u"
  shows "fst (serve PATCH_jammer req w) =
           json 200 (JammerBody (js ''Jammer atualizado com sucesso.'') (j\<lparr>j_estado_jammer := v\<rparr>)) \<and>
         fst (serve PATCH_jammer req (snd (serve PATCH_jammer req w))) =
           json 200 (JammerBody (js ''Jammer atualizado com sucesso.'') (j\<lparr>j_estado_jammer := v\<rparr>)) \<and>
         db (snd (serve PATCH_jammer req (snd (serve PATCH_jammer req w)))) =
           db (snd (serve PATCH_jammer req w)) \<and>
         fst (serve_node PATCH_jammer req w) =
           json 200 (JammerBody (js ''Jammer atualizado com sucesso.'') (j\<lparr>j_estado_jammer := v\<rparr>)) \<and>
         fst (serve_node PATCH_jammer req (snd (serve_node PATCH_jammer req w))) =
           json 200 (JammerBody (js ''Jammer atualizado com sucesso.'') (j\<lparr>j_estado_jammer := v\<rparr>)) \<and>
         db (snd (serve_node PATCH_jammer req (snd (serve_node PATCH_jammer req w)))) =
           db (snd (serve_node PATCH_jammer req w))"
proof -
  let ?k = "param_jammerId req"
  let ?w1 = "stored [UpdateJammers ?k v]
               ((db w)\<lparr>jammers := set_estado ?k v (jammers (db w))\<rparr>) (asked req w)"
  let ?j1 = "j\<lparr>j_estado_jammer := v\<rparr>"
  let ?ok = "json 200 (JammerBody (js ''Jammer atualizado com sucesso.'') ?j1)"
  from assms(2) have d: "distinct (map j_id (jammers (db w)))"
    "distinct (map e_id (estabelecimento (db w)))" by (simp_all add: wf_store_def)
  have first: "serve PATCH_jammer req w = (?ok, ?w1)"
    by (rule patch_jammer_owner[OF assms(1,3) d assms(4-8)])
  have r1: "resolve req ?w1 = Some u"
    using assms(1) resolve_sessions[of ?w1 w req] by (simp add: idp_stored sessions_asked)
  have d1: "distinct (map j_id (jammers (db ?w1)))" "distinct (map e_id (estabelecimento (db ?w1)))"
    using d by (simp_all add: db_stored map_j_id_set_estado)
  have m1: "?j1 \<in> set (jammers (db ?w1))" "j_id ?j1 = ?k"
    "e \<in> set (estabelecimento (db ?w1))" "e_id e = j_id_estabelecimento ?j1"
    using assms(4-7) set_estado_member[OF assms(4,5)] by (simp_all add: db_stored)
  have second: "serve PATCH_jammer req ?w1 =
      (?ok, stored [UpdateJammers ?k v]
              ((db ?w1)\<lparr>jammers := set_estado ?k v (jammers (db ?w1))\<rparr>) (asked req ?w1))"
    using patch_jammer_owner[OF r1 assms(3) d1 m1 assms(8)] by simp
  have mw: "fst (serve PATCH_jammer req w) = ?ok"
    "fst (serve PATCH_jammer req (snd (serve PATCH_jammer req w))) = ?ok"
    "db (snd (serve PATCH_jammer req (snd (serve PATCH_jammer req w)))) =
       db (snd (serve PATCH_jammer req w))"
    by (simp_all add: first second db_stored set_estado_twice del: serve.simps)
  have n0: "serve_node PATCH_jammer req w = serve PATCH_jammer req w"
    by (rule patch_jammer_node_eq[OF assms(1,3)])
  have n1: "serve_node PATCH_jammer req ?w1 = serve PATCH_jammer req ?w1"
    by (rule patch_jammer_node_eq[OF r1 assms(3)])
  have "serve_node PATCH_jammer req (snd (serve_node PATCH_jammer req w)) =
          serve PATCH_jammer req (snd (serve PATCH_jammer req w))"
    using n1 by (simp add: n0 first del: serve.simps serve_node.simps)
  then show ?thesis using mw n0 by (simp del: serve.simps serve_node.simps)
qed

text \<open>\<open>u2\<close> switching the jammer 42 on, twice.\<close>

theorem patch_jammer_idempotent_witness:
  "fst (serve PATCH_jammer ((with_token ''t2'')\<lparr>param_jammerId := 42, body_estado_jammer := Some True\<rparr>)
     (snd (serve PATCH_jammer
        ((with_token ''t2'')\<lparr>param_jammerId := 42, body_estado_jammer := Some True\<rparr>)
        example_world))) =
     json 200 (JammerBody (js ''Jammer atualizado com sucesso.'')
       \<lparr>j_id = 42, j_id_estabelecimento = 7, j_estado_jammer = True\<rparr>) \<and>
   db (snd (serve_node PATCH_jammer
        ((with_token ''t2'')\<lparr>param_jammerId := 42, body_estado_jammer := Some True\<rparr>)
        (snd (serve_node PATCH_jammer
           ((with_token ''t2'')\<lparr>param_jammerId := 42, body_estado_jammer := Some True\<rparr>)
           example_world)))) =
     db (snd (serve_node PATCH_jammer
        ((with_token ''t2'')\<lparr>param_jammerId := 42, body_estado_jammer := Some True\<rparr>)
        example_world))"
proof -
  let ?r = "(with_token ''t2'')\<lparr>param_jammerId := 42, body_estado_jammer := Some True\<rparr>"
  let ?j = "\<lparr>j_id = 42, j_id_estabelecimento = 7, j_estado_jammer = False\<rparr>"
  have r: "resolve ?r example_world = Some bia"
    by (simp add: example_defs)
  have b: "body_estado_jammer ?r = Some True"
    by (simp add: with_token_def)
  have m: "?j \<in> set (jammers (db example_world))" "j_id ?j = param_jammerId ?r"
    "loja \<in> set (estabelecimento (db example_world))" "e_id loja = j_id_estabelecimento ?j"
    "e_user_id loja = au_id bia"
    by (simp_all add: example_world_def example_store_def with_token_def loja_def bia_def)
  show ?thesis
    using patch_jammer_idempotent[OF r wf_example_world b m] by simp
qed

text \<open>
  C10, as the code has it. \<open>PATCH /jammer/:jammerId\<close> reads no row of \<open>users\<close>: for a
  request whose token resolves and whose body carries \<open>estado_jammer\<close>, and a jammer
  whose parent establishment belongs to somebody else, the answer is 403 (Forbidden)
  whatever the \<open>users\<close> table holds, the principal's \<open>is_admin\<close> included, and the
  jammers are the ones before the request, in both source files.
\<close>

theorem patch_jammer_ignores_admin_flag:
  assumes "resolve req w = Some u" "wf_store (db w)" "body_estado_jammer req = Some v"
    "j \<in> set (jammers (db w))" "j_id j = param_jammerId req"
    "e \<in> set (estabelecimento (db w))" "e_id e = j_id_estabelecimento j"
    "e_user_id e \<noteq> au_id u"
  shows "serve PATCH_jammer req (w\<lparr>db := (db w)\<lparr>users := us\<rparr>\<rparr>) =
           (err 403 ''Voce nao tem permissao para alterar este jammer.'',
            asked req (w\<lparr>db := (db w)\<lparr>users := us\<rparr>\<rparr>)) \<and>
         serve_node PATCH_jammer req (w\<lparr>db := (db w)\<lparr>users := us\<rparr>\<rparr>) =
           (err 403 ''Voce nao tem permissao para alterar este jammer.'',
            asked req (w\<lparr>db := (db w)\<lparr>users := us\<rparr>\<rparr>)) \<and>
         jammers (db (asked req (w\<lparr>db := (db w)\<lparr>users := us\<rparr>\<rparr>))) = jammers (db w)"
proof -
  let ?w = "w\<lparr>db := (db w)\<lparr>users := us\<rparr>\<rparr>"
  have r: "resolve req ?w = Some u"
    using assms(1) resolve_sessions[of ?w w req] by simp
  have d: "distinct (map j_id (jammers (db ?w)))" "distinct (map e_id (estabelecimento (db ?w)))"
    using assms(2) by (simp_all add: wf_store_def)
  have m: "j \<in> set (jammers (db ?w))" "e \<in> set (estabelecimento (db ?w))"
    using assms(4,6) by simp_all
  have "serve PATCH_jammer req ?w =
          (err 403 ''Voce nao tem permissao para alterar este jammer.'', asked req ?w)"
    by (rule patch_jammer_forbidden[OF r assms(3) d m(1) assms(5) m(2) assms(7,8)])
  then show ?thesis
    using patch_jammer_node_eq[OF r assms(3)] by (simp add: db_asked)
qed

text \<open>The administrator updating the jammer 42 of \<open>u2\<close>.\<close>

theorem patch_jammer_ignores_admin_flag_witness:
  "serve PATCH_jammer ((with_token ''t0'')\<lparr>param_jammerId := 42, body_estado_jammer := Some True\<rparr>)
     example_world =
     (err 403 ''Voce nao tem permissao para alterar este jammer.'',
      asked ((with_token ''t0'')\<lparr>param_jammerId := 42, body_estado_jammer := Some True\<rparr>)
        example_world) \<and>
   serve_node PATCH_jammer ((with_token ''t0'')\<lparr>param_jammerId := 42, body_estado_jammer := Some True\<rparr>)
     example_world =
     (err 403 ''Voce nao tem permissao para alterar este jammer.'',
      asked ((with_token ''t0'')\<lparr>param_jammerId := 42, body_estado_jammer := Some True\<rparr>)
        example_world)"
proof -
  let ?r = "(with_token ''t0'')\<lparr>param_jammerId := 42, body_estado_jammer := Some True\<rparr>"
  let ?j = "\<lparr>j_id = 42, j_id_estabelecimento = 7, j_estado_jammer = False\<rparr>"
  have r: "resolve ?r example_world = Some root"
    by (simp add: example_defs)
  have b: "body_estado_jammer ?r = Some True"
    by (simp add: with_token_def)
  have m: "?j \<in> set (jammers (db example_world))" "j_id ?j = param_jammerId ?r"
    "loja \<in> set (estabelecimento (db example_world))" "e_id loja = j_id_estabelecimento ?j"
    "e_user_id loja \<noteq> au_id root"
    by (simp_all add: example_world_def example_store_def with_token_def loja_def root_def js_def)
  have same: "example_world\<lparr>db := (db example_world)\<lparr>users := users (db example_world)\<rparr>\<rparr> =
      example_world" by simp
  show ?thesis
    using patch_jammer_ignores_admin_flag[OF r wf_example_world b m,
        of "users (db example_world)"]
    by (simp only: same)
qed

text \<open>
  The claim as worded fails for a body without \<open>estado_jammer\<close>: the administrator,
  who does not own the jammer 42, is answered 400, not 403.
\<close>

theorem patch_jammer_admin_counterexample:
  "resolve ((with_token ''t0'')\<lparr>param_jammerId := 42\<rparr>) example_world = Some root \<and>
   e_user_id loja \<noteq> au_id root \<and>
   fst (serve PATCH_jammer ((with_token ''t0'')\<lparr>param_jammerId := 42\<rparr>) example_world) =
     err 400 ''estado_jammer e obrigatorio.'' \<and>
   fst (serve_node PATCH_jammer ((with_token ''t0'')\<lparr>param_jammerId := 42\<rparr>) example_world) =
     err 400 ''estado_jammer e obrigatorio.''"
  by (simp add: example_defs guarded_def verificarAutenticacao_def getUser_def
        patch_jammer_handler_def patch_jammer_node_def)

section \<open>Deleting an establishment\<close>

lemma admin_route_runs:
  assumes "resolve req w = Some u" "distinct (map u_id (users (db w)))"
    "r \<in> set (users (db w))" "u_id r = au_id u" "u_is_admin r" "admin_handler rt = Some h"
  shows "serve rt req w = h req (asked req w)" "serve_node rt req w = h req (asked req w)"
  using verificarAdmin_flag[OF assms(1-4)] verificarAdmin_node_flag[OF assms(1-4)] assms(5)
  by (simp_all add: admin_routes[OF assms(6)] guarded_def admin_handler_ignores_user[OF assms(6)])

text \<open>The world after the two calls of the route, in the order the handler sends them.\<close>

lemma delete_existing:
  assumes "distinct (map e_id (estabelecimento (db w)))"
    "e \<in> set (estabelecimento (db w))" "e_id e = param_id req"
  shows "admin_delete_estabelecimento_handler req w =
           (json 200 (EstabelecimentoBody
              (js ''Estabelecimento e seus jammers deletados com sucesso.'') e),
            stored [DeleteJammersOf (param_id req), DeleteEstabelecimento (param_id req)]
              (snd (delete_estabelecimento (param_id req)
                      (delete_jammers_of (param_id req) (db w)))) w)"
  using single_key_unique[OF assms]
  by (simp add: admin_delete_estabelecimento_handler_def delete_estabelecimento_def
        delete_jammers_of_def stored_def)

lemma delete_absent:
  assumes "\<not> list_ex (\<lambda>x. e_id x = param_id req) (estabelecimento (db w))"
  shows "admin_delete_estabelecimento_handler req w =
           (json 400 (ErrorBody (StoreMessage PGRST116)),
            stored [DeleteJammersOf (param_id req), DeleteEstabelecimento (param_id req)]
              (snd (delete_estabelecimento (param_id req)
                      (delete_jammers_of (param_id req) (db w)))) w)"
  using single_key_absent[OF assms]
  by (simp add: admin_delete_estabelecimento_handler_def delete_estabelecimento_def
        delete_jammers_of_def stored_def)

lemma delete_twice:
  "snd (delete_estabelecimento i (delete_jammers_of i
     (snd (delete_estabelecimento i (delete_jammers_of i s))))) =
   snd (delete_estabelecimento i (delete_jammers_of i s))"
  by (simp add: delete_estabelecimento_def delete_jammers_of_def)

text \<open>
  C8, as the code has it. For a request to \<open>DELETE /admin/estabelecimento/:id\<close> whose
  token resolves to an administrator, and an establishment with that id, in both
  source files: the answer is 200 with the deleted row; the route has sent the store
  the jammers delete and then the establishment delete, in this order; the jammers
  that pointed to the id and the establishment are gone and every other row is kept.
  The same request sent again fails on the establishment delete, where \<open>.single()\<close>
  finds no row: the answer is status 400 with the message of that store error, not the
  404 of a NotFound, and the store stays as the first request left it.
\<close>

theorem admin_delete_estabelecimento_cascade:
  assumes "resolve req w = Some u" "wf_store (db w)"
    "r \<in> set (users (db w))" "u_id r = au_id u" "u_is_admin r"
    "e \<in> set (estabelecimento (db w))" "e_id e = param_id req"
    "rt = DELETE_admin_estabelecimento"
  shows "(\<forall>f \<in> {serve, serve_node}.
           fst (f rt req w) =
             json 200 (EstabelecimentoBody
               (js ''Estabelecimento e seus jammers deletados com sucesso.'') e) \<and>
           store_calls (snd (f rt req w)) =
             store_calls w @ [DeleteJammersOf (param_id req), DeleteEstabelecimento (param_id req)] \<and>
           jammers (db (snd (f rt req w))) =
             filter (\<lambda>j. j_id_estabelecimento j \<noteq> param_id req) (jammers (db w)) \<and>
           estabelecimento (db (snd (f rt req w))) =
             filter (\<lambda>x. e_id x \<noteq> param_id req) (estabelecimento (db w)) \<and>
           users (db (snd (f rt req w))) = users (db w) \<and>
           fst (f rt req (snd (f rt req w))) = json 400 (ErrorBody (StoreMessage PGRST116)) \<and>
           status (fst (f rt req (snd (f rt req w)))) = 400 \<and>
           db (snd (f rt req (snd (f rt req w)))) = db (snd (f rt req w)))"
proof -
  let ?i = "param_id req"
  let ?h = admin_delete_estabelecimento_handler
  let ?s1 = "snd (delete_estabelecimento ?i (delete_jammers_of ?i (db w)))"
  let ?w1 = "stored [DeleteJammersOf ?i, DeleteEstabelecimento ?i] ?s1 (asked req w)"
  let ?ok = "json 200 (EstabelecimentoBody
               (js ''Estabelecimento e seus jammers deletados com sucesso.'') e)"
  from assms(2) have du: "distinct (map u_id (users (db w)))"
    and de: "distinct (map e_id (estabelecimento (db w)))" by (simp_all add: wf_store_def)
  have h: "admin_handler rt = Some ?h" by (simp add: assms(8))
  have run: "serve rt req w = ?h req (asked req w)" "serve_node rt req w = ?h req (asked req w)"
    by (rule admin_route_runs[OF assms(1) du assms(3-5) h])+
  have first: "?h req (asked req w) = (?ok, ?w1)"
    using delete_existing[of "asked req w" e req] de assms(6,7) by (simp add: db_asked)
  have r1: "resolve req ?w1 = Some u"
    using assms(1) resolve_sessions[of ?w1 w req] by (simp add: idp_stored sessions_asked)
  have u1: "users (db ?w1) = users (db w)"
    by (simp add: db_stored delete_estabelecimento_def delete_jammers_of_def)
  have run1: "serve rt req ?w1 = ?h req (asked req ?w1)"
    "serve_node rt req ?w1 = ?h req (asked req ?w1)"
    using admin_route_runs[OF r1 _ _ assms(4,5) h] du assms(3) by (simp_all only: u1)
  have gone: "\<not> list_ex (\<lambda>x. e_id x = ?i) (estabelecimento (db (asked req ?w1)))"
    by (simp add: db_asked db_stored delete_estabelecimento_def delete_jammers_of_def list_ex_iff)
  have second: "?h req (asked req ?w1) =
      (json 400 (ErrorBody (StoreMessage PGRST116)),
       stored [DeleteJammersOf ?i, DeleteEstabelecimento ?i] ?s1 (asked req ?w1))"
    using delete_absent[OF gone] by (simp add: db_asked db_stored delete_twice)
  have parts: "jammers ?s1 = filter (\<lambda>j. j_id_estabelecimento j \<noteq> ?i) (jammers (db w))"
    "estabelecimento ?s1 = filter (\<lambda>x. e_id x \<noteq> ?i) (estabelecimento (db w))"
    "users ?s1 = users (db w)"
    by (simp_all add: delete_estabelecimento_def delete_jammers_of_def)
  have "fst (serve rt req w) = ?ok \<and> db (snd (serve rt req w)) = ?s1 \<and>
        store_calls (snd (serve rt req w)) =
          store_calls w @ [DeleteJammersOf ?i, DeleteEstabelecimento ?i] \<and>
        fst (serve rt req (snd (serve rt req w))) = json 400 (ErrorBody (StoreMessage PGRST116)) \<and>
        db (snd (serve rt req (snd (serve rt req w)))) = db (snd (serve rt req w))"
    by (simp add: run(1) first run1(1) second db_stored store_calls_stored store_calls_asked)
  moreover have "fst (serve_node rt req w) = ?ok \<and> db (snd (serve_node rt req w)) = ?s1 \<and>
        store_calls (snd (serve_node rt req w)) =
          store_calls w @ [DeleteJammersOf ?i, DeleteEstabelecimento ?i] \<and>
        fst (serve_node rt req (snd (serve_node rt req w))) =
          json 400 (ErrorBody (StoreMessage PGRST116)) \<and>
        db (snd (serve_node rt req (snd (serve_node rt req w)))) = db (snd (serve_node rt req w))"
    by (simp add: run(2) first run1(2) second db_stored store_calls_stored store_calls_asked)
  ultimately show ?thesis using parts by (simp add: status_json)
qed

text \<open>
  The scenario of the specification: the administrator deletes the establishment 7 with
  its two jammers, twice.
\<close>

theorem admin_delete_estabelecimento_cascade_witness:
  "fst (serve DELETE_admin_estabelecimento ((with_token ''t0'')\<lparr>param_id := 7\<rparr>) example_world) =
     json 200 (EstabelecimentoBody
       (js ''Estabelecimento e seus jammers deletados com sucesso.'') loja) \<and>
   store_calls (snd (serve DELETE_admin_estabelecimento ((with_token ''t0'')\<lparr>param_id := 7\<rparr>)
     example_world)) = [DeleteJammersOf 7, DeleteEstabelecimento 7] \<and>
   jammers (db (snd (serve DELETE_admin_estabelecimento ((with_token ''t0'')\<lparr>param_id := 7\<rparr>)
     example_world))) = [] \<and>
   estabelecimento (db (snd (serve DELETE_admin_estabelecimento ((with_token ''t0'')\<lparr>param_id := 7\<rparr>)
     example_world))) = [] \<and>
   fst (serve DELETE_admin_estabelecimento ((with_token ''t0'')\<lparr>param_id := 7\<rparr>)
     (snd (serve DELETE_admin_estabelecimento ((with_token ''t0'')\<lparr>param_id := 7\<rparr>) example_world)))
     = json 400 (ErrorBody (StoreMessage PGRST116))"
proof -
  let ?r = "(with_token ''t0'')\<lparr>param_id := 7\<rparr>"
  let ?root = "\<lparr>u_id = js ''adm'', u_email = js ''root@x.io'', u_user_name = js ''root@x.io'',
                u_is_admin = True\<rparr>"
  have r: "resolve ?r example_world = Some root"
    by (simp add: example_defs)
  have m: "?root \<in> set (users (db example_world))" "u_id ?root = au_id root" "u_is_admin ?root"
    "loja \<in> set (estabelecimento (db example_world))" "e_id loja = param_id ?r"
    by (simp_all add: example_world_def example_store_def root_def with_token_def loja_def)
  have f: "filter (\<lambda>j. j_id_estabelecimento j \<noteq> param_id ?r) (jammers (db example_world)) = []"
    "filter (\<lambda>x. e_id x \<noteq> param_id ?r) (estabelecimento (db example_world)) = []"
    "store_calls example_world = []" "param_id ?r = 7"
    by (simp_all add: example_world_def example_store_def with_token_def loja_def)
  from admin_delete_estabelecimento_cascade[OF r wf_example_world m refl]
  have t: "fst (serve DELETE_admin_estabelecimento ?r example_world) =
      json 200 (EstabelecimentoBody
        (js ''Estabelecimento e seus jammers deletados com sucesso.'') loja)"
    "store_calls (snd (serve DELETE_admin_estabelecimento ?r example_world)) =
      store_calls example_world @
        [DeleteJammersOf (param_id ?r), DeleteEstabelecimento (param_id ?r)]"
    "jammers (db (snd (serve DELETE_admin_estabelecimento ?r example_world))) =
      filter (\<lambda>j. j_id_estabelecimento j \<noteq> param_id ?r) (jammers (db example_world))"
    "estabelecimento (db (snd (serve DELETE_admin_estabelecimento ?r example_world))) =
      filter (\<lambda>x. e_id x \<noteq> param_id ?r) (estabelecimento (db example_world))"
    "fst (serve DELETE_admin_estabelecimento ?r
       (snd (serve DELETE_admin_estabelecimento ?r example_world))) =
      json 400 (ErrorBody (StoreMessage PGRST116))"
    by blast+
  show ?thesis
    unfolding t f by (simp add: example_world_def example_store_def loja_def)
qed

text \<open>
  The claim as worded fails on the second request: its answer has the status 400 of a
  rejected input, not the 404 that the routes give a row they do not find.
\<close>

theorem admin_delete_twice_counterexample:
  "resolve ((with_token ''t0'')\<lparr>param_id := 7\<rparr>) example_world = Some root \<and>
   status (fst (serve DELETE_admin_estabelecimento ((with_token ''t0'')\<lparr>param_id := 7\<rparr>)
     (snd (serve DELETE_admin_estabelecimento ((with_token ''t0'')\<lparr>param_id := 7\<rparr>)
        example_world)))) = 400 \<and>
   status (fst (serve_node DELETE_admin_estabelecimento ((with_token ''t0'')\<lparr>param_id := 7\<rparr>)
     (snd (serve_node DELETE_admin_estabelecimento ((with_token ''t0'')\<lparr>param_id := 7\<rparr>)
        example_world)))) = 400 \<and>
   (400::nat) \<noteq> 404"
  by (simp add: example_defs guarded_def verificarAdmin_def verificarAdmin_node_def getUser_def
        single_def admin_delete_estabelecimento_handler_def delete_estabelecimento_def
        delete_jammers_of_def stored_def json_def)

end
